theory Spec2Isabelle
  imports Complex_Main "HOL-Library.Sublist"
begin

section \<open>Air-Traffic-Analyzer: the flight aggregation and classification engine\<close>

text \<open>
  A shallow embedding of the request handlers of \<^verbatim>\<open>src/app.py\<close>:
  \<^verbatim>\<open>api_flights_live\<close>, \<^verbatim>\<open>api_stats_summary\<close>, \<^verbatim>\<open>api_airport_weather\<close>,
  \<^verbatim>\<open>api_airport_traffic\<close> (with its local \<^verbatim>\<open>haversine\<close>) and the two fetch helpers.

  Modelling decisions, each visible in the definitions below:
  \<^item> Python floats are idealised as \<open>real\<close>, Python ints as \<open>int\<close>.
  \<^item> Python strings are \<open>string\<close>; the case mappings and the whitespace test are
    those of Python on ASCII characters (call signs and the provider's condition
    names are ASCII).
  \<^item> The SQLite tables are lists of rows in insertion order.
  \<^item> The outside world (environment variable, clock, what the two HTTP services
    answer) is a read-only record \<open>world\<close>; an exception raised by a fetch is the
    \<open>Inl\<close> branch of the handler's result.
  \<^item> The handlers are the view functions themselves; the \<^verbatim>\<open>login_required\<close>
    decorator and the parsing of the query string into numbers belong to the HTTP
    layer and are not part of the model.
\<close>

subsection \<open>Python values\<close>

text \<open>\<^verbatim>\<open>x or 0\<close> on an optional number: \<^verbatim>\<open>None\<close> and zero are both falsy.\<close>

definition py_or0 :: "real option \<Rightarrow> real" where
  "py_or0 x = (case x of None \<Rightarrow> 0 | Some v \<Rightarrow> if v = 0 then 0 else v)"

text \<open>\<^verbatim>\<open>s or ""\<close> on an optional string.\<close>

definition py_or_empty :: "string option \<Rightarrow> string" where
  "py_or_empty x = (case x of None \<Rightarrow> [] | Some s \<Rightarrow> if s = [] then [] else s)"

text \<open>\<^verbatim>\<open>str.upper\<close> and \<^verbatim>\<open>str.lower\<close>, character by character.\<close>

definition ascii_upper :: "char \<Rightarrow> char" where
  "ascii_upper c =
     (case map_of (zip ''abcdefghijklmnopqrstuvwxyz'' ''ABCDEFGHIJKLMNOPQRSTUVWXYZ'') c of
        None \<Rightarrow> c | Some u \<Rightarrow> u)"

definition ascii_lower :: "char \<Rightarrow> char" where
  "ascii_lower c =
     (case map_of (zip ''ABCDEFGHIJKLMNOPQRSTUVWXYZ'' ''abcdefghijklmnopqrstuvwxyz'') c of
        None \<Rightarrow> c | Some l \<Rightarrow> l)"

definition str_upper :: "string \<Rightarrow> string" where
  "str_upper s = map ascii_upper s"

definition str_lower :: "string \<Rightarrow> string" where
  "str_lower s = map ascii_lower s"

text \<open>
  \<^verbatim>\<open>str.strip()\<close>: the ASCII characters for which \<^verbatim>\<open>str.isspace\<close> holds are
  tab, line feed, vertical tab, form feed, carriage return, the four separators
  0x1C..0x1F and the space.
\<close>

definition is_space :: "char \<Rightarrow> bool" where
  "is_space c \<longleftrightarrow>
     c \<in> set [CHR 0x09, CHR 0x0A, CHR 0x0B, CHR 0x0C, CHR 0x0D,
              CHR 0x1C, CHR 0x1D, CHR 0x1E, CHR 0x1F, CHR 0x20]"

definition str_strip :: "string \<Rightarrow> string" where
  "str_strip s = rev (dropWhile is_space (rev (dropWhile is_space s)))"

text \<open>\<^verbatim>\<open>needle in hay\<close> on strings: substring search.\<close>

fun starts_with :: "string \<Rightarrow> string \<Rightarrow> bool" where
  "starts_with hay [] = True"
| "starts_with [] (n # ns) = False"
| "starts_with (h # hs) (n # ns) = (h = n \<and> starts_with hs ns)"

fun py_in :: "string \<Rightarrow> string \<Rightarrow> bool" where
  "py_in needle [] = (needle = [])"
| "py_in needle (h # hs) = (starts_with (h # hs) needle \<or> py_in needle hs)"

text \<open>
  The specification's notion "contains, ignoring case", stated on its own: some
  position of the text carries the pattern when letters are compared without
  regard to case.
\<close>

definition same_letter :: "char \<Rightarrow> char \<Rightarrow> bool" where
  "same_letter a b \<longleftrightarrow> ascii_lower a = ascii_lower b"

fun starts_with_ignoring_case :: "string \<Rightarrow> string \<Rightarrow> bool" where
  "starts_with_ignoring_case hay [] = True"
| "starts_with_ignoring_case [] (n # ns) = False"
| "starts_with_ignoring_case (h # hs) (n # ns) =
     (same_letter h n \<and> starts_with_ignoring_case hs ns)"

fun contains_ignoring_case :: "string \<Rightarrow> string \<Rightarrow> bool" where
  "contains_ignoring_case [] needle = (needle = [])"
| "contains_ignoring_case (h # hs) needle =
     (starts_with_ignoring_case (h # hs) needle \<or> contains_ignoring_case hs needle)"

subsection \<open>Data model\<close>

text \<open>
  One state vector of the feed. Only the positions the code reads are kept:
  \<^verbatim>\<open>s[0]\<close> icao24, \<^verbatim>\<open>s[1]\<close> callsign, \<^verbatim>\<open>s[2]\<close> origin country, \<^verbatim>\<open>s[5]\<close> longitude,
  \<^verbatim>\<open>s[6]\<close> latitude, \<^verbatim>\<open>s[7]\<close> barometric altitude, \<^verbatim>\<open>s[9]\<close> velocity,
  \<^verbatim>\<open>s[10]\<close> heading. A JSON \<^verbatim>\<open>null\<close> is \<open>None\<close>.
\<close>

record state_vector =
  sv_icao24 :: string
  sv_callsign :: "string option"
  sv_origin_country :: string
  sv_lon :: "real option"
  sv_lat :: "real option"
  sv_baro_altitude :: "real option"
  sv_velocity :: "real option"
  sv_heading :: "real option"

text \<open>The feed's answer: \<^verbatim>\<open>data.get("time", ...)\<close> and \<^verbatim>\<open>data.get("states", []) or []\<close>.\<close>

record opensky_data =
  od_time :: "int option"
  od_states :: "state_vector list option"

text \<open>The dictionary appended to \<^verbatim>\<open>flights\<close>.\<close>

record flight =
  f_icao24 :: string
  f_callsign :: string
  f_origin_country :: string
  f_lat :: real
  f_lon :: real
  f_altitude :: real
  f_velocity :: real
  f_heading :: real
  f_timestamp :: int

text \<open>
  A row of table \<^verbatim>\<open>flight_snapshots\<close>. The autoincrement key is left out: no
  query of the program reads it.
\<close>

record snapshot =
  snap_icao24 :: string
  snap_callsign :: string
  snap_lat :: real
  snap_lon :: real
  snap_altitude :: real
  snap_velocity :: real
  snap_timestamp :: int

text \<open>A row of table \<^verbatim>\<open>airports\<close>.\<close>

record airport =
  ap_code :: string
  ap_name :: string
  ap_city :: string
  ap_country :: string
  ap_lat :: real
  ap_lon :: real

record region_bounds =
  min_lat :: real
  max_lat :: real
  min_lon :: real
  max_lon :: real

definition REGION_BOUNDS :: region_bounds where
  "REGION_BOUNDS = \<lparr>min_lat = 5, max_lat = 35, min_lon = 68, max_lon = 97\<rparr>"

subsection \<open>The outside world and the program state\<close>

text \<open>
  Exceptions that leave a handler: anything \<^verbatim>\<open>requests.get\<close>,
  \<^verbatim>\<open>raise_for_status\<close> or \<^verbatim>\<open>resp.json\<close> raises, and the \<^verbatim>\<open>IndexError\<close> of
  \<^verbatim>\<open>weather["weather"][0]\<close> on an empty list. No handler catches either.
\<close>

datatype exn = RequestException | IndexError

text \<open>The weather provider's answer, as far as the handler reads it.\<close>

record weather_item =
  wi_main :: string
  wi_description :: string

record weather_obs =
  wo_weather :: "weather_item list"
  wo_wind_speed :: real
  wo_temp :: real

text \<open>
  What the program reads from outside: the environment variable, the clock, and
  what each HTTP service would answer (an exception or a decoded body).
\<close>

record world =
  OPENWEATHER_API_KEY :: "string option"
  utcnow :: int
  opensky_answer :: "exn + opensky_data"
  openweather_answer :: "real \<Rightarrow> real \<Rightarrow> exn + weather_obs"

datatype request = OpenSkyRequest | OpenWeatherRequest real real

text \<open>
  The mutable state: the two tables, and a log of the HTTP requests sent so far
  (instrumentation, so that "the provider is not consulted" can be stated).
\<close>

record system =
  airports :: "airport list"
  flight_snapshots :: "snapshot list"
  requests_sent :: "request list"

text \<open>
  A view's return value: \<^verbatim>\<open>jsonify(payload)\<close>, or
  \<^verbatim>\<open>jsonify({"error": message}), status\<close>.
\<close>

datatype 'a http_response = Json 'a | JsonError string nat

definition fetch_opensky_states :: "world \<Rightarrow> system \<Rightarrow> (exn + opensky_data) \<times> system" where
  "fetch_opensky_states w sys =
     (opensky_answer w, sys\<lparr>requests_sent := requests_sent sys @ [OpenSkyRequest]\<rparr>)"

definition fetch_openweather ::
  "world \<Rightarrow> real \<Rightarrow> real \<Rightarrow> system \<Rightarrow> (exn + weather_obs option) \<times> system" where
  "fetch_openweather w lat lon sys =
     (if (case OPENWEATHER_API_KEY w of None \<Rightarrow> True | Some k \<Rightarrow> k = []) then (Inr None, sys)
      else
        (case openweather_answer w lat lon of
           Inl e \<Rightarrow> Inl e
         | Inr body \<Rightarrow> Inr (Some body),
         sys\<lparr>requests_sent := requests_sent sys @ [OpenWeatherRequest lat lon]\<rparr>))"

subsection \<open>\<^verbatim>\<open>api_flights_live\<close>\<close>

text \<open>
  The body of the loop over \<^verbatim>\<open>states\<close>: \<open>None\<close> is a \<^verbatim>\<open>continue\<close>, \<open>Some\<close> the
  dictionary that is appended.
\<close>

definition flight_of ::
  "region_bounds \<Rightarrow> real \<Rightarrow> real \<Rightarrow> string \<Rightarrow> int \<Rightarrow> state_vector \<Rightarrow> flight option" where
  "flight_of bounds min_alt max_alt callsign_search ts s =
     (let icao24 = sv_icao24 s;
          callsign = str_strip (py_or_empty (sv_callsign s));
          origin_country = sv_origin_country s;
          altitude = py_or0 (sv_baro_altitude s);
          velocity = py_or0 (sv_velocity s);
          heading = py_or0 (sv_heading s)
      in case (sv_lat s, sv_lon s) of
           (Some lat, Some lon) \<Rightarrow>
             if \<not> (min_lat bounds \<le> lat \<and> lat \<le> max_lat bounds \<and>
                   min_lon bounds \<le> lon \<and> lon \<le> max_lon bounds) then None
             else if \<not> (min_alt \<le> altitude \<and> altitude \<le> max_alt) then None
             else if callsign_search \<noteq> [] \<and> \<not> py_in callsign_search callsign then None
             else Some \<lparr>f_icao24 = icao24, f_callsign = callsign,
                        f_origin_country = origin_country, f_lat = lat, f_lon = lon,
                        f_altitude = altitude, f_velocity = velocity, f_heading = heading,
                        f_timestamp = ts\<rparr>
         | _ \<Rightarrow> None)"

fun flights_loop ::
  "region_bounds \<Rightarrow> real \<Rightarrow> real \<Rightarrow> string \<Rightarrow> int \<Rightarrow> state_vector list \<Rightarrow> flight list \<Rightarrow> flight list"
  where
  "flights_loop bounds min_alt max_alt callsign_search ts [] flights = flights"
| "flights_loop bounds min_alt max_alt callsign_search ts (s # states) flights =
     flights_loop bounds min_alt max_alt callsign_search ts states
       (case flight_of bounds min_alt max_alt callsign_search ts s of
          None \<Rightarrow> flights
        | Some f \<Rightarrow> flights @ [f])"

text \<open>
  A flight dictionary carries the fields of a state vector: trimmed call sign,
  defaulted altitude, velocity and heading, the coordinates, and the time stamp
  of the feed.
\<close>

definition is_record_of :: "int \<Rightarrow> flight \<Rightarrow> state_vector \<Rightarrow> bool" where
  "is_record_of ts f s \<longleftrightarrow>
     sv_lat s = Some (f_lat f) \<and> sv_lon s = Some (f_lon f) \<and>
     f_icao24 f = sv_icao24 s \<and>
     f_callsign f = str_strip (py_or_empty (sv_callsign s)) \<and>
     f_origin_country f = sv_origin_country s \<and>
     f_altitude f = py_or0 (sv_baro_altitude s) \<and>
     f_velocity f = py_or0 (sv_velocity s) \<and>
     f_heading f = py_or0 (sv_heading s) \<and>
     f_timestamp f = ts"

text \<open>The \<^verbatim>\<open>INSERT INTO flight_snapshots\<close> of one flight, and the loop around it.\<close>

definition snapshot_row :: "flight \<Rightarrow> snapshot" where
  "snapshot_row f =
     \<lparr>snap_icao24 = f_icao24 f, snap_callsign = f_callsign f, snap_lat = f_lat f,
      snap_lon = f_lon f, snap_altitude = f_altitude f, snap_velocity = f_velocity f,
      snap_timestamp = f_timestamp f\<rparr>"

fun insert_snapshots :: "flight list \<Rightarrow> snapshot list \<Rightarrow> snapshot list" where
  "insert_snapshots [] rows = rows"
| "insert_snapshots (f # fs) rows = insert_snapshots fs (rows @ [snapshot_row f])"

record live_flights =
  lf_count :: nat
  lf_flights :: "flight list"

text \<open>
  The query parameters arrive parsed: \<open>None\<close> is an absent parameter, which
  \<^verbatim>\<open>request.args.get\<close> replaces by its default.
\<close>

definition api_flights_live ::
  "world \<Rightarrow> real option \<Rightarrow> real option \<Rightarrow> string option \<Rightarrow> system
     \<Rightarrow> (exn + live_flights http_response) \<times> system" where
  "api_flights_live w arg_min_alt arg_max_alt arg_callsign sys =
     (let min_alt = (case arg_min_alt of None \<Rightarrow> 0 | Some v \<Rightarrow> v);
          max_alt = (case arg_max_alt of None \<Rightarrow> 50000 | Some v \<Rightarrow> v);
          callsign_search =
            str_upper (str_strip (case arg_callsign of None \<Rightarrow> [] | Some c \<Rightarrow> c));
          bounds = REGION_BOUNDS;
          (fetched, sys1) = fetch_opensky_states w sys
      in case fetched of
           Inl e \<Rightarrow> (Inl e, sys1)
         | Inr data \<Rightarrow>
             (let states = (case od_states data of None \<Rightarrow> [] | Some ss \<Rightarrow> ss);
                  ts = (case od_time data of None \<Rightarrow> utcnow w | Some t \<Rightarrow> t);
                  flights = flights_loop bounds min_alt max_alt callsign_search ts states [];
                  sys2 = sys1\<lparr>flight_snapshots :=
                               insert_snapshots (take 100 flights) (flight_snapshots sys1)\<rparr>
              in (Inr (Json \<lparr>lf_count = length flights, lf_flights = flights\<rparr>), sys2)))"

subsection \<open>\<^verbatim>\<open>api_stats_summary\<close>\<close>

text \<open>\<^verbatim>\<open>SELECT COUNT(*) FROM flight_snapshots WHERE timestamp >= ?\<close>\<close>

definition count_since :: "int \<Rightarrow> snapshot list \<Rightarrow> nat" where
  "count_since since rows = length (filter (\<lambda>r. since \<le> snap_timestamp r) rows)"

text \<open>
  SQLite's \<^verbatim>\<open>/\<close> on two integers: the quotient truncated toward zero (the column
  \<^verbatim>\<open>timestamp\<close> is declared \<^verbatim>\<open>INTEGER\<close> and holds integers).
\<close>

definition sql_div :: "int \<Rightarrow> int \<Rightarrow> int" where
  "sql_div a b =
     (if (a < 0) = (b < 0) then \<bar>a\<bar> div \<bar>b\<bar> else - (\<bar>a\<bar> div \<bar>b\<bar>))"

text \<open>
  \<^verbatim>\<open>SELECT (timestamp/3600) as hour_bucket, COUNT(*) ... GROUP BY hour_bucket\<close>:
  one pass over the rows that keeps a counter per bucket.
\<close>

fun bump :: "int \<Rightarrow> (int \<times> nat) list \<Rightarrow> (int \<times> nat) list" where
  "bump k [] = [(k, 1)]"
| "bump k ((h, c) # groups) =
     (if h = k then (h, c + 1) # groups else (h, c) # bump k groups)"

definition group_count :: "int list \<Rightarrow> (int \<times> nat) list" where
  "group_count ks = foldl (\<lambda>groups k. bump k groups) [] ks"

text \<open>The counter a grouping holds for a bucket (0 when the bucket is absent).\<close>

definition counter :: "(int \<times> nat) list \<Rightarrow> int \<Rightarrow> nat" where
  "counter groups h = (case map_of groups h of None \<Rightarrow> 0 | Some c \<Rightarrow> c)"

text \<open>\<^verbatim>\<open>ORDER BY hour_bucket DESC\<close>\<close>

definition order_desc :: "(int \<times> nat) list \<Rightarrow> (int \<times> nat) list" where
  "order_desc groups = rev (sort_key fst groups)"

record hour_count =
  hc_hour :: int
  hc_count :: nat

text \<open>The whole query with \<^verbatim>\<open>LIMIT\<close>, and the list comprehension over its rows.\<close>

definition hourly_buckets :: "nat \<Rightarrow> snapshot list \<Rightarrow> hour_count list" where
  "hourly_buckets limit rows =
     map (\<lambda>(h, c). \<lparr>hc_hour = h, hc_count = c\<rparr>)
       (take limit (order_desc (group_count (map (\<lambda>r. sql_div (snap_timestamp r) 3600) rows))))"

record stats_summary =
  recent_snapshot_count :: nat
  congestion_level :: string
  flights_per_hour :: "hour_count list"

definition api_stats_summary :: "world \<Rightarrow> system \<Rightarrow> stats_summary http_response" where
  "api_stats_summary w sys =
     (let now = utcnow w;
          ten_min_ago = now - 600;
          count_recent = count_since ten_min_ago (flight_snapshots sys);
          congestion =
            (if count_recent < 50 then ''LOW''
             else if count_recent < 150 then ''MEDIUM''
             else ''HIGH'');
          flights_per_hour = hourly_buckets 24 (flight_snapshots sys)
      in Json \<lparr>recent_snapshot_count = count_recent, congestion_level = congestion,
               flights_per_hour = flights_per_hour\<rparr>)"

text \<open>
  The specification's \<^verbatim>\<open>hourlyBuckets\<close>, stated on its own for a bucket function
  \<open>bucket\<close>: the distinct bucket values of the rows in descending order, each
  with the number of rows that fall into it, cut to the first \<open>limit\<close>.
\<close>

definition buckets_by :: "(int \<Rightarrow> int) \<Rightarrow> nat \<Rightarrow> snapshot list \<Rightarrow> hour_count list" where
  "buckets_by bucket limit rows =
     take limit
       (map (\<lambda>h. \<lparr>hc_hour = h,
                   hc_count = length (filter (\<lambda>r. bucket (snap_timestamp r) = h) rows)\<rparr>)
          (rev (sort (remdups (map (\<lambda>r. bucket (snap_timestamp r)) rows)))))"

subsection \<open>\<^verbatim>\<open>api_airport_weather\<close>\<close>

text \<open>\<^verbatim>\<open>SELECT * FROM airports WHERE code = ?\<close> followed by \<^verbatim>\<open>fetchone()\<close>.\<close>

definition find_airport :: "string \<Rightarrow> airport list \<Rightarrow> airport option" where
  "find_airport code rows = List.find (\<lambda>a. ap_code a = code) rows"

text \<open>The block under \<^verbatim>\<open># Simple risk mapping\<close>, on the two values it reads.\<close>

definition weather_risk :: "string \<Rightarrow> real \<Rightarrow> string" where
  "weather_risk condition_main wind =
     (let main = str_lower condition_main in
      if py_in ''storm'' main \<or> py_in ''thunder'' main \<or> wind > 15 then ''HIGH''
      else if py_in ''rain'' main \<or> py_in ''fog'' main then ''MODERATE''
      else ''LOW'')"

record weather_report =
  wr_airport :: string
  wr_name :: string
  wr_city :: string
  wr_country :: string
  wr_temp :: real
  wr_condition :: string
  wr_wind_speed :: real
  wr_risk :: string

definition api_airport_weather ::
  "world \<Rightarrow> string \<Rightarrow> system \<Rightarrow> (exn + weather_report http_response) \<times> system" where
  "api_airport_weather w code sys =
     (case find_airport (str_upper code) (airports sys) of
        None \<Rightarrow> (Inr (JsonError ''Unknown airport'' 404), sys)
      | Some ap \<Rightarrow>
          (let (fetched, sys1) = fetch_openweather w (ap_lat ap) (ap_lon ap) sys in
           case fetched of
             Inl e \<Rightarrow> (Inl e, sys1)
           | Inr None \<Rightarrow> (Inr (JsonError ''Weather API not configured'' 500), sys1)
           | Inr (Some weather) \<Rightarrow>
               (case wo_weather weather of
                  [] \<Rightarrow> (Inl IndexError, sys1)
                | first # _ \<Rightarrow>
                    (let wind = wo_wind_speed weather;
                         risk = weather_risk (wi_main first) wind
                     in (Inr (Json \<lparr>wr_airport = ap_code ap, wr_name = ap_name ap,
                                     wr_city = ap_city ap, wr_country = ap_country ap,
                                     wr_temp = wo_temp weather,
                                     wr_condition = wi_description first,
                                     wr_wind_speed = wind, wr_risk = risk\<rparr>), sys1)))))"

subsection \<open>\<^verbatim>\<open>api_airport_traffic\<close>\<close>

text \<open>\<^verbatim>\<open>math.radians\<close> and the local function \<^verbatim>\<open>haversine\<close>.\<close>

definition radians :: "real \<Rightarrow> real" where
  "radians x = x * (pi / 180)"

definition haversine :: "real \<Rightarrow> real \<Rightarrow> real \<Rightarrow> real \<Rightarrow> real" where
  "haversine lat1 lon1 lat2 lon2 =
     (let R = 6371;
          dlat = radians (lat2 - lat1);
          dlon = radians (lon2 - lon1);
          a = (sin (dlat / 2))\<^sup>2 + cos (radians lat1) * cos (radians lat2) * (sin (dlon / 2))\<^sup>2;
          c = 2 * arcsin (sqrt a)
      in R * c)"

text \<open>\<^verbatim>\<open>round(x, 1)\<close>: to one decimal, a tie going to the even neighbour.\<close>

definition py_round1 :: "real \<Rightarrow> real" where
  "py_round1 x =
     (let y = x * 10; f = \<lfloor>y\<rfloor>; r = y - of_int f in
      (if r < 1 / 2 then of_int f
       else if 1 / 2 < r then of_int (f + 1)
       else if even f then of_int f
       else of_int (f + 1)) / 10)"

record traffic_info =
  ti_callsign :: string
  ti_lat :: real
  ti_lon :: real
  ti_heading :: real
  ti_distance_km :: real

record traffic_buckets =
  arrivals :: "traffic_info list"
  departures :: "traffic_info list"
  others :: "traffic_info list"

text \<open>The body of the loop over \<^verbatim>\<open>states\<close>, on the three lists it appends to.\<close>

definition traffic_step :: "real \<Rightarrow> real \<Rightarrow> state_vector \<Rightarrow> traffic_buckets \<Rightarrow> traffic_buckets" where
  "traffic_step lat0 lon0 s b =
     (let callsign = str_strip (py_or_empty (sv_callsign s));
          heading = py_or0 (sv_heading s)
      in case (sv_lat s, sv_lon s) of
           (Some lat, Some lon) \<Rightarrow>
             (let dist = haversine lat0 lon0 lat lon in
              if dist \<le> 100 then
                (let info = \<lparr>ti_callsign = callsign, ti_lat = lat, ti_lon = lon,
                             ti_heading = heading, ti_distance_km = py_round1 dist\<rparr>
                 in if dist > 30 \<and> heading \<noteq> 0 \<and> heading \<noteq> 360
                      then b\<lparr>arrivals := arrivals b @ [info]\<rparr>
                    else if dist < 30
                      then b\<lparr>departures := departures b @ [info]\<rparr>
                    else b\<lparr>others := others b @ [info]\<rparr>)
              else b)
         | _ \<Rightarrow> b)"

fun traffic_loop :: "real \<Rightarrow> real \<Rightarrow> state_vector list \<Rightarrow> traffic_buckets \<Rightarrow> traffic_buckets" where
  "traffic_loop lat0 lon0 [] b = b"
| "traffic_loop lat0 lon0 (s # states) b = traffic_loop lat0 lon0 states (traffic_step lat0 lon0 s b)"

record traffic_report =
  tr_airport :: string
  tr_name :: string
  tr_arrivals :: "traffic_info list"
  tr_departures :: "traffic_info list"
  tr_others :: "traffic_info list"

definition api_airport_traffic ::
  "world \<Rightarrow> string \<Rightarrow> system \<Rightarrow> (exn + traffic_report http_response) \<times> system" where
  "api_airport_traffic w code sys =
     (case find_airport (str_upper code) (airports sys) of
        None \<Rightarrow> (Inr (JsonError ''Unknown airport'' 404), sys)
      | Some ap \<Rightarrow>
          (let lat0 = ap_lat ap; lon0 = ap_lon ap;
               (fetched, sys1) = fetch_opensky_states w sys
           in case fetched of
                Inl e \<Rightarrow> (Inl e, sys1)
              | Inr data \<Rightarrow>
                  (let states = (case od_states data of None \<Rightarrow> [] | Some ss \<Rightarrow> ss);
                       b = traffic_loop lat0 lon0 states
                             \<lparr>arrivals = [], departures = [], others = []\<rparr>
                   in (Inr (Json \<lparr>tr_airport = ap_code ap, tr_name = ap_name ap,
                                   tr_arrivals = arrivals b, tr_departures = departures b,
                                   tr_others = others b\<rparr>), sys1))))"

text \<open>
  What the loop does with one state vector, as the specification words it: the
  record of a state vector with coordinates, its distance, and the bucket the
  rule names for a distance and a heading (\<open>None\<close>: outside the radius).
\<close>

definition distance_to :: "real \<Rightarrow> real \<Rightarrow> state_vector \<Rightarrow> real" where
  "distance_to lat0 lon0 s = haversine lat0 lon0 (the (sv_lat s)) (the (sv_lon s))"

definition has_position :: "state_vector \<Rightarrow> bool" where
  "has_position s \<longleftrightarrow> sv_lat s \<noteq> None \<and> sv_lon s \<noteq> None"

definition traffic_entry :: "real \<Rightarrow> real \<Rightarrow> state_vector \<Rightarrow> traffic_info" where
  "traffic_entry lat0 lon0 s =
     \<lparr>ti_callsign = str_strip (py_or_empty (sv_callsign s)),
      ti_lat = the (sv_lat s), ti_lon = the (sv_lon s),
      ti_heading = py_or0 (sv_heading s),
      ti_distance_km = py_round1 (distance_to lat0 lon0 s)\<rparr>"

subsection \<open>Outcomes of an airport query\<close>

text \<open>
  The specification's names for what a query produces: NotFound and Unconfigured
  are the two error answers of the handlers, success is any JSON payload; the
  fourth possibility is an exception that leaves the handler. The provider is
  configured when the environment variable is set and not empty; it answers when
  the request returns a body whose \<^verbatim>\<open>weather\<close> list has a first item.
\<close>

definition is_not_found :: "exn + 'a http_response \<Rightarrow> bool" where
  "is_not_found r \<longleftrightarrow> r = Inr (JsonError ''Unknown airport'' 404)"

definition is_unconfigured :: "exn + 'a http_response \<Rightarrow> bool" where
  "is_unconfigured r \<longleftrightarrow> r = Inr (JsonError ''Weather API not configured'' 500)"

definition is_success :: "exn + 'a http_response \<Rightarrow> bool" where
  "is_success r = (case r of Inr (Json payload) \<Rightarrow> True | _ \<Rightarrow> False)"

definition is_raised :: "exn + 'a http_response \<Rightarrow> bool" where
  "is_raised r = (case r of Inl e \<Rightarrow> True | Inr response \<Rightarrow> False)"

definition weather_configured :: "world \<Rightarrow> bool" where
  "weather_configured w \<longleftrightarrow> OPENWEATHER_API_KEY w \<noteq> None \<and> OPENWEATHER_API_KEY w \<noteq> Some []"

definition weather_answers :: "world \<Rightarrow> airport \<Rightarrow> bool" where
  "weather_answers w ap =
     (case openweather_answer w (ap_lat ap) (ap_lon ap) of
        Inl e \<Rightarrow> False
      | Inr body \<Rightarrow> wo_weather body \<noteq> [])"

definition feed_answers :: "world \<Rightarrow> bool" where
  "feed_answers w = (case opensky_answer w of Inl e \<Rightarrow> False | Inr data \<Rightarrow> True)"

definition exactly_one :: "bool \<Rightarrow> bool \<Rightarrow> bool \<Rightarrow> bool" where
  "exactly_one a b c \<longleftrightarrow> (a \<and> \<not> b \<and> \<not> c) \<or> (\<not> a \<and> b \<and> \<not> c) \<or> (\<not> a \<and> \<not> b \<and> c)"

subsection \<open>Sample inputs\<close>

text \<open>Concrete inputs on which the theorems below are exercised.\<close>

definition sample_row :: "int \<Rightarrow> snapshot" where
  "sample_row t =
     \<lparr>snap_icao24 = ''800c1f'', snap_callsign = ''AIC101'', snap_lat = 19, snap_lon = 72,
      snap_altitude = 10000, snap_velocity = 200, snap_timestamp = t\<rparr>"

definition offline_world :: "int \<Rightarrow> world" where
  "offline_world now =
     \<lparr>OPENWEATHER_API_KEY = None, utcnow = now,
      opensky_answer = Inl RequestException,
      openweather_answer = (\<lambda>lat lon. Inl RequestException)\<rparr>"

definition store_with_recent :: "nat \<Rightarrow> system" where
  "store_with_recent n =
     \<lparr>airports = [], flight_snapshots = sample_row 0 # replicate n (sample_row 400),
      requests_sent = []\<rparr>"

definition sample_vector ::
  "string option \<Rightarrow> real option \<Rightarrow> real option \<Rightarrow> real option \<Rightarrow> real option \<Rightarrow> state_vector" where
  "sample_vector callsign lat lon altitude heading =
     \<lparr>sv_icao24 = ''800c1f'', sv_callsign = callsign, sv_origin_country = ''India'',
      sv_lon = lon, sv_lat = lat, sv_baro_altitude = altitude, sv_velocity = Some 230,
      sv_heading = heading\<rparr>"

definition sample_states :: "state_vector list" where
  "sample_states =
     [sample_vector (Some ''AIC101  '') (Some 19) (Some 72) (Some 10000) (Some 90),
      sample_vector (Some ''BAW12'') (Some 51) (Some 0) (Some 11000) (Some 270),
      sample_vector None None None None None,
      sample_vector (Some ''IGO5'') (Some 28) (Some 77) None None]"

definition feed_world :: "state_vector list \<Rightarrow> world" where
  "feed_world states =
     \<lparr>OPENWEATHER_API_KEY = None, utcnow = 1700000600,
      opensky_answer = Inr \<lparr>od_time = Some 1700000000, od_states = Some states\<rparr>,
      openweather_answer = (\<lambda>lat lon. Inl RequestException)\<rparr>"

text \<open>
  State vectors on the equator, seen from an airport at latitude 0 and longitude
  0, where the distance is 6371 times the longitude in radians: about 55.6 km at
  half a degree, exactly 30 km at \<open>5400 / (6371 * pi)\<close> degrees, about 222 km at
  two degrees.
\<close>

definition arriving :: state_vector where
  "arriving = sample_vector (Some ''ARR1'') (Some 0) (Some (1 / 2)) (Some 3000) (Some 90)"

definition departing :: state_vector where
  "departing = sample_vector (Some ''DEP1'') (Some 0) (Some 0) (Some 500) (Some 90)"

definition on_the_ring :: state_vector where
  "on_the_ring = sample_vector (Some ''RING'') (Some 0) (Some (5400 / (6371 * pi))) (Some 3000) (Some 90)"

definition far_away :: state_vector where
  "far_away = sample_vector (Some ''FAR1'') (Some 0) (Some 2) (Some 9000) (Some 90)"

definition northbound :: state_vector where
  "northbound = sample_vector (Some ''NORTH'') (Some 0) (Some (1 / 2)) (Some 3000) (Some 360)"

definition silent :: state_vector where
  "silent = sample_vector (Some ''MUTE'') (Some 0) (Some (1 / 2)) (Some 3000) None"

definition silent_near :: state_vector where
  "silent_near = sample_vector (Some ''NEAR'') (Some 0) (Some 0) (Some 500) None"

definition no_position :: state_vector where
  "no_position = sample_vector (Some ''LOST'') None None None (Some 90)"

definition equator_states :: "state_vector list" where
  "equator_states =
     [arriving, departing, on_the_ring, far_away, northbound, silent, silent_near, no_position]"

text \<open>One airport of the sample table, a provider that reports a thunderstorm, and a
  network on which every request fails.\<close>

definition mumbai :: airport where
  "mumbai =
     \<lparr>ap_code = ''BOM'', ap_name = ''Chhatrapati Shivaji Maharaj Intl'', ap_city = ''Mumbai'',
      ap_country = ''India'', ap_lat = 19.0896, ap_lon = 72.8656\<rparr>"

definition airports_only :: system where
  "airports_only = \<lparr>airports = [mumbai], flight_snapshots = [], requests_sent = []\<rparr>"

definition stormy_world :: world where
  "stormy_world =
     \<lparr>OPENWEATHER_API_KEY = Some ''key'', utcnow = 1700000600,
      opensky_answer = Inr \<lparr>od_time = Some 1700000000, od_states = Some sample_states\<rparr>,
      openweather_answer =
        (\<lambda>lat lon. Inr \<lparr>wo_weather =
                            [\<lparr>wi_main = ''Thunderstorm'',
                              wi_description = ''thunderstorm with rain''\<rparr>],
                          wo_wind_speed = 5, wo_temp = 29\<rparr>)\<rparr>"

definition failing_world :: world where
  "failing_world =
     \<lparr>OPENWEATHER_API_KEY = Some ''key'', utcnow = 1700000600,
      opensky_answer = Inl RequestException,
      openweather_answer = (\<lambda>lat lon. Inl RequestException)\<rparr>"

section \<open>Properties\<close>

subsection \<open>Strings\<close>

text \<open>
  Substring search is the library's \<open>sublist\<close>; searching the upper-cased (or
  lower-cased) pattern in the upper-cased (lower-cased) text is containment
  ignoring case; trimming commutes with upper-casing.
\<close>

lemma ascii_lower_upper [simp]: "ascii_lower (ascii_upper c) = ascii_lower c"
  by (simp add: ascii_upper_def ascii_lower_def)

lemma ascii_upper_lower [simp]: "ascii_upper (ascii_lower c) = ascii_upper c"
  by (simp add: ascii_upper_def ascii_lower_def)

lemma ascii_lower_idem [simp]: "ascii_lower (ascii_lower c) = ascii_lower c"
  by (simp add: ascii_lower_def)

lemma ascii_upper_eq_iff: "ascii_upper a = ascii_upper b \<longleftrightarrow> same_letter a b"
  unfolding same_letter_def by (metis ascii_lower_upper ascii_upper_lower)

lemma ascii_lower_eq_iff: "ascii_lower (ascii_lower a) = ascii_lower (ascii_lower b) \<longleftrightarrow> same_letter a b"
  unfolding same_letter_def by simp

lemma is_space_upper [simp]: "is_space (ascii_upper c) = is_space c"
  by (simp add: ascii_upper_def is_space_def)

lemma starts_with_prefix: "starts_with hay needle = prefix needle hay"
  by (induction hay needle rule: starts_with.induct) auto

lemma py_in_sublist: "py_in needle hay = sublist needle hay"
  by (induction hay) (simp_all add: starts_with_prefix sublist_Cons_right)

lemma py_in_iff: "py_in needle hay \<longleftrightarrow> (\<exists>before after. hay = before @ needle @ after)"
  by (simp add: py_in_sublist sublist_def)

lemma starts_with_upper:
  "starts_with (map ascii_upper hay) (map ascii_upper needle) = starts_with_ignoring_case hay needle"
  by (induction hay needle rule: starts_with.induct) (simp_all add: ascii_upper_eq_iff)

lemma starts_with_lower:
  "starts_with (map ascii_lower hay) (map ascii_lower needle) = starts_with_ignoring_case hay needle"
  by (induction hay needle rule: starts_with.induct) (simp_all add: same_letter_def)

lemma py_in_upper:
  "py_in (str_upper needle) (str_upper hay) = contains_ignoring_case hay needle"
  unfolding str_upper_def
  by (induction hay) (simp_all add: starts_with_upper [of "h # hs" for h hs, simplified])

lemma py_in_lower:
  "py_in (str_lower needle) (str_lower hay) = contains_ignoring_case hay needle"
  unfolding str_lower_def
  by (induction hay) (simp_all add: starts_with_lower [of "h # hs" for h hs, simplified])

lemma dropWhile_space_upper:
  "dropWhile is_space (map ascii_upper s) = map ascii_upper (dropWhile is_space s)"
  by (induction s) simp_all

lemma str_strip_upper: "str_strip (str_upper s) = str_upper (str_strip s)"
  by (simp add: str_strip_def str_upper_def dropWhile_space_upper rev_map)

lemma py_in_lowered:
  assumes "str_lower needle = needle"
  shows "py_in needle (str_lower hay) = contains_ignoring_case hay needle"
  using py_in_lower [of needle hay] assms by simp

lemma lower_case_needles:
  "str_lower ''storm'' = ''storm''" "str_lower ''thunder'' = ''thunder''"
  "str_lower ''rain'' = ''rain''" "str_lower ''fog'' = ''fog''"
  by (simp_all add: str_lower_def ascii_lower_def)

subsection \<open>Congestion summary\<close>

text \<open>
  Claim C3. The congestion summary always answers; its recent count is the number
  of stored snapshot rows whose timestamp is at least \<open>now - 600\<close>; a count below
  50 gives LOW, a count from 50 up to 149 gives MEDIUM and a count of 150 or more
  gives HIGH, in particular 49 gives LOW, 50 and 149 give MEDIUM, 150 gives HIGH.
\<close>

theorem congestion_summary_thresholds:
  "\<exists>r. api_stats_summary w sys = Json r \<and>
     recent_snapshot_count r =
       card {i. i < length (flight_snapshots sys) \<and>
                utcnow w - 600 \<le> snap_timestamp (flight_snapshots sys ! i)} \<and>
     (recent_snapshot_count r < 50 \<longrightarrow> congestion_level r = ''LOW'') \<and>
     (50 \<le> recent_snapshot_count r \<and> recent_snapshot_count r < 150 \<longrightarrow>
        congestion_level r = ''MEDIUM'') \<and>
     (150 \<le> recent_snapshot_count r \<longrightarrow> congestion_level r = ''HIGH'') \<and>
     (recent_snapshot_count r = 49 \<longrightarrow> congestion_level r = ''LOW'') \<and>
     (recent_snapshot_count r = 50 \<longrightarrow> congestion_level r = ''MEDIUM'') \<and>
     (recent_snapshot_count r = 149 \<longrightarrow> congestion_level r = ''MEDIUM'') \<and>
     (recent_snapshot_count r = 150 \<longrightarrow> congestion_level r = ''HIGH'')"
  by (simp add: api_stats_summary_def count_since_def Let_def length_filter_conv_card)

text \<open>
  The four boundary counts on stores that hold one old row (timestamp 0) and 49,
  50, 149 and 150 rows of timestamp 400, read at time 1000.
\<close>

theorem congestion_summary_thresholds_witness:
  "(\<exists>r. api_stats_summary (offline_world 1000) (store_with_recent 49) = Json r \<and>
        recent_snapshot_count r = 49 \<and> congestion_level r = ''LOW'') \<and>
   (\<exists>r. api_stats_summary (offline_world 1000) (store_with_recent 50) = Json r \<and>
        recent_snapshot_count r = 50 \<and> congestion_level r = ''MEDIUM'') \<and>
   (\<exists>r. api_stats_summary (offline_world 1000) (store_with_recent 149) = Json r \<and>
        recent_snapshot_count r = 149 \<and> congestion_level r = ''MEDIUM'') \<and>
   (\<exists>r. api_stats_summary (offline_world 1000) (store_with_recent 150) = Json r \<and>
        recent_snapshot_count r = 150 \<and> congestion_level r = ''HIGH'')"
  using congestion_summary_thresholds [of "offline_world 1000" "store_with_recent 49"]
    congestion_summary_thresholds [of "offline_world 1000" "store_with_recent 50"]
    congestion_summary_thresholds [of "offline_world 1000" "store_with_recent 149"]
    congestion_summary_thresholds [of "offline_world 1000" "store_with_recent 150"]
  by (simp add: offline_world_def store_with_recent_def sample_row_def
      api_stats_summary_def count_since_def)

subsection \<open>The live-flight filter\<close>

text \<open>The two loops, as list functions.\<close>

lemma flights_loop_map_filter:
  "flights_loop bounds min_alt max_alt cs ts states acc =
     acc @ List.map_filter (flight_of bounds min_alt max_alt cs ts) states"
  by (induction states arbitrary: acc) (simp_all split: option.splits)

lemma insert_snapshots_append:
  "insert_snapshots fs rows = rows @ map snapshot_row fs"
  by (induction fs arbitrary: rows) simp_all

lemma flight_of_SomeD:
  assumes "flight_of bounds min_alt max_alt cs ts s = Some f"
  shows "is_record_of ts f s"
    and "min_lat bounds \<le> f_lat f" "f_lat f \<le> max_lat bounds"
    and "min_lon bounds \<le> f_lon f" "f_lon f \<le> max_lon bounds"
    and "min_alt \<le> f_altitude f" "f_altitude f \<le> max_alt"
    and "cs = [] \<or> py_in cs (f_callsign f)"
  using assms
  by (auto simp: flight_of_def is_record_of_def Let_def split: option.splits if_splits)

lemma map_filter_subseq:
  "\<exists>kept. subseq kept xs \<and> map Some (List.map_filter g xs) = map g kept"
proof (induction xs)
  case Nil
  show ?case by simp
next
  case (Cons x xs)
  then obtain kept where k: "subseq kept xs" "map Some (List.map_filter g xs) = map g kept"
    by blast
  show ?case
  proof (cases "g x")
    case None
    with k show ?thesis
      by (intro exI[of _ kept]) (simp add: list_emb_Cons)
  next
    case (Some y)
    with k show ?thesis
      by (intro exI[of _ "x # kept"]) simp
  qed
qed

lemma set_map_filter: "set (List.map_filter g xs) = {y. \<exists>x\<in>set xs. g x = Some y}"
  by (induction xs) (auto split: option.splits)

lemma str_strip_samples [simp]:
  "str_strip ''AIC101  '' = ''AIC101''" "str_strip ''IGO5'' = ''IGO5''" "str_strip [] = []"
  by (simp_all add: str_strip_def is_space_def)

lemma api_flights_live_success:
  assumes "opensky_answer w = Inr data"
  shows "api_flights_live w arg_min_alt arg_max_alt arg_callsign sys =
     (let flights =
            flights_loop REGION_BOUNDS
              (case arg_min_alt of None \<Rightarrow> 0 | Some v \<Rightarrow> v)
              (case arg_max_alt of None \<Rightarrow> 50000 | Some v \<Rightarrow> v)
              (str_upper (str_strip (case arg_callsign of None \<Rightarrow> [] | Some c \<Rightarrow> c)))
              (case od_time data of None \<Rightarrow> utcnow w | Some t \<Rightarrow> t)
              (case od_states data of None \<Rightarrow> [] | Some ss \<Rightarrow> ss) []
      in (Inr (Json \<lparr>lf_count = length flights, lf_flights = flights\<rparr>),
          sys\<lparr>requests_sent := requests_sent sys @ [OpenSkyRequest],
              flight_snapshots := flight_snapshots sys @ map snapshot_row (take 100 flights)\<rparr>))"
  using assms
  by (simp add: api_flights_live_def fetch_opensky_states_def Let_def insert_snapshots_append)

text \<open>
  Claim C4. For every batch of state vectors, every bounds and every altitude
  range, the flights the filter loop returns are the records of a subsequence of
  the batch, in the order of the batch, and every returned flight lies within the
  bounds (limits included) and has its altitude between \<open>min_alt\<close> and \<open>max_alt\<close>
  (limits included).
\<close>

theorem region_filter_subsequence:
  "\<exists>kept. subseq kept states \<and>
      list_all2 (is_record_of ts) (flights_loop bounds min_alt max_alt cs ts states []) kept \<and>
      (\<forall>f \<in> set (flights_loop bounds min_alt max_alt cs ts states []).
          min_lat bounds \<le> f_lat f \<and> f_lat f \<le> max_lat bounds \<and>
          min_lon bounds \<le> f_lon f \<and> f_lon f \<le> max_lon bounds \<and>
          min_alt \<le> f_altitude f \<and> f_altitude f \<le> max_alt)"
proof -
  let ?g = "flight_of bounds min_alt max_alt cs ts"
  let ?out = "flights_loop bounds min_alt max_alt cs ts states []"
  have out: "?out = List.map_filter ?g states"
    by (simp add: flights_loop_map_filter)
  obtain kept where k: "subseq kept states" "map Some ?out = map ?g kept"
    using map_filter_subseq[of states ?g] out by auto
  have len: "length ?out = length kept"
    using k(2) by (metis length_map)
  have "list_all2 (is_record_of ts) ?out kept"
  proof (rule list_all2_all_nthI[OF len])
    fix n assume n: "n < length ?out"
    have "map Some ?out ! n = map ?g kept ! n" using k(2) by simp
    with n len have "?g (kept ! n) = Some (?out ! n)" by simp
    then show "is_record_of ts (?out ! n) (kept ! n)" by (rule flight_of_SomeD(1))
  qed
  moreover have "\<forall>f \<in> set ?out.
          min_lat bounds \<le> f_lat f \<and> f_lat f \<le> max_lat bounds \<and>
          min_lon bounds \<le> f_lon f \<and> f_lon f \<le> max_lon bounds \<and>
          min_alt \<le> f_altitude f \<and> f_altitude f \<le> max_alt"
    unfolding out set_map_filter by (auto dest: flight_of_SomeD)
  ultimately show ?thesis using k(1) by blast
qed


text \<open>
  Four state vectors under the configured region: the first and the last are
  kept, the second lies outside the region, the third has no position.
\<close>

theorem region_filter_subsequence_witness:
  "flights_loop REGION_BOUNDS 0 50000 [] 1700000000 sample_states [] =
     [\<lparr>f_icao24 = ''800c1f'', f_callsign = ''AIC101'', f_origin_country = ''India'',
       f_lat = 19, f_lon = 72, f_altitude = 10000, f_velocity = 230, f_heading = 90,
       f_timestamp = 1700000000\<rparr>,
      \<lparr>f_icao24 = ''800c1f'', f_callsign = ''IGO5'', f_origin_country = ''India'',
       f_lat = 28, f_lon = 77, f_altitude = 0, f_velocity = 230, f_heading = 0,
       f_timestamp = 1700000000\<rparr>]"
  using region_filter_subsequence [of sample_states 1700000000 REGION_BOUNDS 0 50000 "[]"]
  by (simp add: sample_states_def sample_vector_def flight_of_def REGION_BOUNDS_def
      py_or0_def py_or_empty_def)

subsection \<open>Stored snapshots\<close>

text \<open>
  Claim C7. When the feed answers, the handler appends one snapshot row for each
  of the first 100 flights it returns, after the rows already stored, and the row
  stored for a flight has the flight's icao24, callsign, lat, lon, altitude,
  velocity and timestamp.
\<close>

theorem snapshot_round_trip:
  assumes "opensky_answer w = Inr data"
  shows "\<exists>flights sys'.
     api_flights_live w arg_min_alt arg_max_alt arg_callsign sys =
       (Inr (Json \<lparr>lf_count = length flights, lf_flights = flights\<rparr>), sys') \<and>
     length (flight_snapshots sys') = length (flight_snapshots sys) + min 100 (length flights) \<and>
     take (length (flight_snapshots sys)) (flight_snapshots sys') = flight_snapshots sys \<and>
     (\<forall>i < min 100 (length flights).
        snap_icao24 (flight_snapshots sys' ! (length (flight_snapshots sys) + i)) = f_icao24 (flights ! i) \<and>
        snap_callsign (flight_snapshots sys' ! (length (flight_snapshots sys) + i)) = f_callsign (flights ! i) \<and>
        snap_lat (flight_snapshots sys' ! (length (flight_snapshots sys) + i)) = f_lat (flights ! i) \<and>
        snap_lon (flight_snapshots sys' ! (length (flight_snapshots sys) + i)) = f_lon (flights ! i) \<and>
        snap_altitude (flight_snapshots sys' ! (length (flight_snapshots sys) + i)) = f_altitude (flights ! i) \<and>
        snap_velocity (flight_snapshots sys' ! (length (flight_snapshots sys) + i)) = f_velocity (flights ! i) \<and>
        snap_timestamp (flight_snapshots sys' ! (length (flight_snapshots sys) + i)) = f_timestamp (flights ! i))"
  unfolding api_flights_live_success [OF assms] Let_def
  by (intro exI conjI) (rule refl, simp_all add: snapshot_row_def min_def)

text \<open>The rows stored for the four sample state vectors.\<close>

theorem snapshot_round_trip_witness:
  "snd (api_flights_live (feed_world sample_states) None None None (store_with_recent 0)) =
     \<lparr>airports = [],
      flight_snapshots =
        [sample_row 0,
         \<lparr>snap_icao24 = ''800c1f'', snap_callsign = ''AIC101'', snap_lat = 19, snap_lon = 72,
          snap_altitude = 10000, snap_velocity = 230, snap_timestamp = 1700000000\<rparr>,
         \<lparr>snap_icao24 = ''800c1f'', snap_callsign = ''IGO5'', snap_lat = 28, snap_lon = 77,
          snap_altitude = 0, snap_velocity = 230, snap_timestamp = 1700000000\<rparr>],
      requests_sent = [OpenSkyRequest]\<rparr>"
proof -
  have fetched: "opensky_answer (feed_world sample_states) =
      Inr \<lparr>od_time = Some 1700000000, od_states = Some sample_states\<rparr>"
    by (simp add: feed_world_def)
  have flights: "flights_loop REGION_BOUNDS 0 50000 [] 1700000000 sample_states [] =
     [\<lparr>f_icao24 = ''800c1f'', f_callsign = ''AIC101'', f_origin_country = ''India'',
       f_lat = 19, f_lon = 72, f_altitude = 10000, f_velocity = 230, f_heading = 90,
       f_timestamp = 1700000000\<rparr>,
      \<lparr>f_icao24 = ''800c1f'', f_callsign = ''IGO5'', f_origin_country = ''India'',
       f_lat = 28, f_lon = 77, f_altitude = 0, f_velocity = 230, f_heading = 0,
       f_timestamp = 1700000000\<rparr>]"
    by (simp add: sample_states_def sample_vector_def flight_of_def REGION_BOUNDS_def
        py_or0_def py_or_empty_def)
  have run: "snd (api_flights_live (feed_world sample_states) None None None (store_with_recent 0)) =
     \<lparr>airports = [],
      flight_snapshots =
        [sample_row 0,
         \<lparr>snap_icao24 = ''800c1f'', snap_callsign = ''AIC101'', snap_lat = 19, snap_lon = 72,
          snap_altitude = 10000, snap_velocity = 230, snap_timestamp = 1700000000\<rparr>,
         \<lparr>snap_icao24 = ''800c1f'', snap_callsign = ''IGO5'', snap_lat = 28, snap_lon = 77,
          snap_altitude = 0, snap_velocity = 230, snap_timestamp = 1700000000\<rparr>],
      requests_sent = [OpenSkyRequest]\<rparr>"
    unfolding api_flights_live_success [OF fetched]
    by (simp add: str_upper_def flights snapshot_row_def store_with_recent_def)
  show ?thesis
    using snapshot_round_trip [OF fetched, of None None None "store_with_recent 0"] run
    by simp
qed


subsection \<open>The call sign search\<close>

text \<open>
  Claim C2, as the code has it. The search text is trimmed and upper-cased; the
  call sign of the record is trimmed and left in the case the feed gave it. For a
  state vector with a position inside the bounds and an altitude inside the
  range, and a search text that is not blank: the record is kept exactly when its
  trimmed call sign contains the upper-cased trimmed search text verbatim; when
  the call sign has no lower-case letter this is containment ignoring case; and
  the outcome is the same for every casing of the search text.
\<close>

theorem callsign_search_is_upper_cased:
  assumes "sv_lat s = Some lat" and "sv_lon s = Some lon"
    and "min_lat bounds \<le> lat" and "lat \<le> max_lat bounds"
    and "min_lon bounds \<le> lon" and "lon \<le> max_lon bounds"
    and "min_alt \<le> py_or0 (sv_baro_altitude s)" and "py_or0 (sv_baro_altitude s) \<le> max_alt"
    and "str_strip search \<noteq> []"
  shows
    "(flights_loop bounds min_alt max_alt (str_upper (str_strip search)) ts [s] [] \<noteq> []
        \<longleftrightarrow> py_in (str_upper (str_strip search)) (str_strip (py_or_empty (sv_callsign s)))) \<and>
     (str_upper (str_strip (py_or_empty (sv_callsign s))) = str_strip (py_or_empty (sv_callsign s)) \<longrightarrow>
        (flights_loop bounds min_alt max_alt (str_upper (str_strip search)) ts [s] [] \<noteq> []
           \<longleftrightarrow> contains_ignoring_case (str_strip (py_or_empty (sv_callsign s))) (str_strip search))) \<and>
     (\<forall>search'. str_upper search' = str_upper search \<longrightarrow>
        flights_loop bounds min_alt max_alt (str_upper (str_strip search')) ts [s] [] =
        flights_loop bounds min_alt max_alt (str_upper (str_strip search)) ts [s] [])"
proof -
  let ?cs = "str_strip (py_or_empty (sv_callsign s))"
  let ?q = "str_upper (str_strip search)"
  have nonempty: "?q \<noteq> []"
    using assms(9) by (simp add: str_upper_def)
  have kept: "flights_loop bounds min_alt max_alt ?q ts [s] [] \<noteq> [] \<longleftrightarrow> py_in ?q ?cs"
    using assms(1-8) nonempty by (simp add: flight_of_def Let_def)
  have ci: "py_in ?q ?cs \<longleftrightarrow> contains_ignoring_case ?cs (str_strip search)"
    if "str_upper ?cs = ?cs"
    using py_in_upper [of "str_strip search" ?cs] that by simp
  have recase: "str_upper (str_strip search') = ?q" if "str_upper search' = str_upper search"
    for search'
    using that by (simp add: str_strip_upper [symmetric])
  show ?thesis
  proof (intro conjI impI allI)
    show "flights_loop bounds min_alt max_alt ?q ts [s] [] \<noteq> [] \<longleftrightarrow> py_in ?q ?cs"
      by (rule kept)
  next
    assume "str_upper ?cs = ?cs"
    then show "flights_loop bounds min_alt max_alt ?q ts [s] [] \<noteq> []
        \<longleftrightarrow> contains_ignoring_case ?cs (str_strip search)"
      using kept ci by blast
  next
    fix search' assume "str_upper search' = str_upper search"
    then have "str_upper (str_strip search') = ?q"
      by (rule recase)
    then show "flights_loop bounds min_alt max_alt (str_upper (str_strip search')) ts [s] [] =
        flights_loop bounds min_alt max_alt ?q ts [s] []"
      by (rule arg_cong [where f = "\<lambda>q. flights_loop bounds min_alt max_alt q ts [s] []"])
  qed
qed



lemma str_upper_samples [simp]:
  "str_upper ''AIC'' = ''AIC''" "str_upper ''aic'' = ''AIC''" "str_upper ''AIC101'' = ''AIC101''"
  by (simp_all add: str_upper_def ascii_upper_def)

lemma str_strip_searches [simp]:
  "str_strip '' aic '' = ''aic''" "str_strip '' AIC'' = ''AIC''" "str_strip ''AIC'' = ''AIC''"
  "str_strip ''aic101'' = ''aic101''" "str_strip ''AIC101'' = ''AIC101''"
  by (simp_all add: str_strip_def is_space_def)

text \<open>The search text \<open>'' aic ''\<close> finds the call sign \<open>''AIC101  ''\<close>.\<close>

theorem callsign_search_is_upper_cased_witness:
  "flights_loop REGION_BOUNDS 0 50000 (str_upper (str_strip '' aic '')) 1700000000
      [sample_vector (Some ''AIC101  '') (Some 19) (Some 72) (Some 10000) (Some 90)] [] \<noteq> [] \<and>
   py_in ''AIC'' ''AIC101'' \<and> contains_ignoring_case ''AIC101'' ''aic''"
proof -
  let ?s = "sample_vector (Some ''AIC101  '') (Some 19) (Some 72) (Some 10000) (Some 90)"
  have position: "sv_lat ?s = Some 19" "sv_lon ?s = Some 72"
    by (simp_all add: sample_vector_def)
  have inside: "min_lat REGION_BOUNDS \<le> 19" "19 \<le> max_lat REGION_BOUNDS"
      "min_lon REGION_BOUNDS \<le> 72" "72 \<le> max_lon REGION_BOUNDS"
    by (simp_all add: REGION_BOUNDS_def)
  have altitude: "0 \<le> py_or0 (sv_baro_altitude ?s)" "py_or0 (sv_baro_altitude ?s) \<le> 50000"
    by (simp_all add: sample_vector_def py_or0_def)
  have search: "str_strip '' aic '' \<noteq> []"
    by simp
  have callsign: "str_strip (py_or_empty (sv_callsign ?s)) = ''AIC101''"
    by (simp add: sample_vector_def py_or_empty_def)
  show ?thesis
    using callsign_search_is_upper_cased [OF position inside altitude search, of 1700000000]
    by (simp add: callsign same_letter_def ascii_lower_def)
qed

text \<open>
  The claim as stated fails for a call sign in lower case, which the upper-cased
  search text does not find, and for a search text with a leading space, which
  is trimmed before the search.
\<close>

theorem callsign_case_insensitive_counterexample:
  "contains_ignoring_case ''aic101'' ''AIC'' \<and>
   fst (api_flights_live
          (feed_world [sample_vector (Some ''aic101'') (Some 19) (Some 72) (Some 10000) (Some 90)])
          None None (Some ''AIC'') (store_with_recent 0)) =
     Inr (Json \<lparr>lf_count = 0, lf_flights = []\<rparr>) \<and>
   \<not> contains_ignoring_case ''AIC101'' '' AIC'' \<and>
   fst (api_flights_live
          (feed_world [sample_vector (Some ''AIC101'') (Some 19) (Some 72) (Some 10000) (Some 90)])
          None None (Some '' AIC'') (store_with_recent 0)) =
     Inr (Json \<lparr>lf_count = 1, lf_flights =
       [\<lparr>f_icao24 = ''800c1f'', f_callsign = ''AIC101'', f_origin_country = ''India'',
         f_lat = 19, f_lon = 72, f_altitude = 10000, f_velocity = 230, f_heading = 90,
         f_timestamp = 1700000000\<rparr>]\<rparr>)"
proof -
  have fetched: "opensky_answer (feed_world states) =
      Inr \<lparr>od_time = Some 1700000000, od_states = Some states\<rparr>" for states
    by (simp add: feed_world_def)
  show ?thesis
    unfolding api_flights_live_success [OF fetched]
    by (simp add: sample_vector_def flight_of_def REGION_BOUNDS_def py_or0_def py_or_empty_def
        same_letter_def ascii_lower_def)
qed


subsection \<open>Weather risk\<close>

text \<open>
  Claim C5. For every condition text and wind speed the risk is HIGH when the
  text contains "storm" or "thunder" ignoring case or the wind speed exceeds 15
  (whatever the text), otherwise MODERATE when the text contains "rain" or "fog"
  ignoring case, otherwise LOW; and the four sample values are as stated.
\<close>

theorem weather_risk_precedence:
  "weather_risk condition wind =
     (if contains_ignoring_case condition ''storm'' \<or>
         contains_ignoring_case condition ''thunder'' \<or> 15 < wind then ''HIGH''
      else if contains_ignoring_case condition ''rain'' \<or>
              contains_ignoring_case condition ''fog'' then ''MODERATE''
      else ''LOW'') \<and>
   (15 < wind \<longrightarrow> weather_risk condition wind = ''HIGH'') \<and>
   weather_risk ''Thunderstorm'' 5 = ''HIGH'' \<and>
   weather_risk ''light rain'' 5 = ''MODERATE'' \<and>
   weather_risk ''clear'' 20 = ''HIGH'' \<and>
   weather_risk ''clear'' 5 = ''LOW''"
proof -
  have general: "weather_risk c v =
     (if contains_ignoring_case c ''storm'' \<or> contains_ignoring_case c ''thunder'' \<or> 15 < v
        then ''HIGH''
      else if contains_ignoring_case c ''rain'' \<or> contains_ignoring_case c ''fog''
        then ''MODERATE''
      else ''LOW'')" for c v
    unfolding weather_risk_def Let_def
    by (simp only: py_in_lowered [OF lower_case_needles(1)] py_in_lowered [OF lower_case_needles(2)]
        py_in_lowered [OF lower_case_needles(3)] py_in_lowered [OF lower_case_needles(4)])
  have examples: "weather_risk ''Thunderstorm'' 5 = ''HIGH''"
      "weather_risk ''light rain'' 5 = ''MODERATE''"
      "weather_risk ''clear'' 20 = ''HIGH''"
      "weather_risk ''clear'' 5 = ''LOW''"
    by (simp_all add: weather_risk_def str_lower_def ascii_lower_def)
  show ?thesis
    using general [of condition wind] examples by simp
qed

text \<open>Wind of 20 over a text that alone would give MODERATE.\<close>

theorem weather_risk_precedence_witness:
  "(15::real) < 20 \<and> weather_risk ''rain and fog'' 20 = ''HIGH'' \<and>
   contains_ignoring_case ''rain and fog'' ''rain''"
  using weather_risk_precedence [of "''rain and fog''" 20]
  by (simp add: same_letter_def ascii_lower_def)


subsection \<open>Hourly buckets\<close>

text \<open>
  The grouping pass keeps one counter per bucket value; after the descending sort
  the query's rows are the distinct bucket values from the largest down, each with
  the number of rows in it.
\<close>

lemma keys_bump: "fst ` set (bump k groups) = insert k (fst ` set groups)"
  by (induction k groups rule: bump.induct) auto

lemma distinct_bump: "distinct (map fst groups) \<Longrightarrow> distinct (map fst (bump k groups))"
  by (induction k groups rule: bump.induct) (auto simp: keys_bump)

lemma counter_bump: "counter (bump k groups) h = (if h = k then counter groups k + 1 else counter groups h)"
  by (induction k groups rule: bump.induct) (auto simp: counter_def)

lemma foldl_bump:
  "fst ` set (foldl (\<lambda>groups k. bump k groups) g0 ks) = fst ` set g0 \<union> set ks \<and>
   (distinct (map fst g0) \<longrightarrow> distinct (map fst (foldl (\<lambda>groups k. bump k groups) g0 ks))) \<and>
   counter (foldl (\<lambda>groups k. bump k groups) g0 ks) h = counter g0 h + count_list ks h"
  by (induction ks arbitrary: g0) (auto simp: keys_bump distinct_bump counter_bump)

lemma group_count_keys: "fst ` set (group_count ks) = set ks"
  using foldl_bump [of "[]" ks] by (simp add: group_count_def)

lemma group_count_distinct: "distinct (map fst (group_count ks))"
  using foldl_bump [of "[]" ks] by (simp add: group_count_def)

lemma group_count_counts:
  assumes "(h, c) \<in> set (group_count ks)"
  shows "c = count_list ks h"
proof -
  have "map_of (group_count ks) h = Some c"
    using assms group_count_distinct by simp
  then have "counter (group_count ks) h = c"
    by (simp add: counter_def)
  then show ?thesis
    using foldl_bump [of "[]" ks h] by (simp add: group_count_def counter_def)
qed


lemma sorted_keys_of_groups:
  "map fst (sort_key fst (group_count ks)) = sort (remdups ks)"
proof (rule sorted_distinct_set_unique)
  let ?l = "sort_key fst (group_count ks)"
  show "sorted (map fst ?l)"
    by (rule sorted_sort_key)
  have keys: "set (map fst ?l) = set ks"
    by (simp add: group_count_keys)
  have "length (map fst ?l) = length (map fst (group_count ks))"
    by simp
  also have "\<dots> = card (set (map fst (group_count ks)))"
    using group_count_distinct [of ks] by (simp only: distinct_card)
  also have "\<dots> = card (set (map fst ?l))"
    by (simp add: group_count_keys)
  finally show "distinct (map fst ?l)"
    by (simp only: card_distinct)
  show "sorted (sort (remdups ks))" and "distinct (sort (remdups ks))"
    by simp_all
  show "set (map fst ?l) = set (sort (remdups ks))"
    using keys by simp
qed

lemma order_desc_group_count:
  "order_desc (group_count ks) = map (\<lambda>h. (h, count_list ks h)) (rev (sort (remdups ks)))"
proof -
  let ?l = "order_desc (group_count ks)"
  have keys: "map fst ?l = rev (sort (remdups ks))"
    by (simp add: order_desc_def rev_map [symmetric] sorted_keys_of_groups)
  have "map (\<lambda>p. (fst p, count_list ks (fst p))) ?l = ?l"
  proof (rule map_idI)
    fix p assume "p \<in> set ?l"
    then have "(fst p, snd p) \<in> set (group_count ks)"
      by (simp add: order_desc_def)
    then have "snd p = count_list ks (fst p)"
      by (rule group_count_counts)
    then show "(fst p, count_list ks (fst p)) = p"
      by (simp add: prod_eq_iff)
  qed
  then have "?l = map (\<lambda>h. (h, count_list ks h)) (map fst ?l)"
    by (simp add: comp_def)
  then show ?thesis
    by (simp only: keys)
qed

lemma count_list_bucket:
  "count_list (map (\<lambda>r. bucket (snap_timestamp r)) rows) h =
     length (filter (\<lambda>r. bucket (snap_timestamp r) = h) rows)"
  by (induction rows) simp_all

lemma hourly_buckets_grouping:
  "hourly_buckets limit rows = buckets_by (\<lambda>t. sql_div t 3600) limit rows"
  by (simp add: hourly_buckets_def buckets_by_def order_desc_group_count take_map
      count_list_bucket [of "\<lambda>t. sql_div t 3600"] comp_def)

lemma sql_div_nonneg: "0 \<le> t \<Longrightarrow> sql_div t 3600 = t div 3600"
  by (simp add: sql_div_def)

lemma buckets_by_cong:
  assumes "\<And>r. r \<in> set rows \<Longrightarrow> f (snap_timestamp r) = g (snap_timestamp r)"
  shows "buckets_by f limit rows = buckets_by g limit rows"
proof -
  have m: "map (\<lambda>r. f (snap_timestamp r)) rows = map (\<lambda>r. g (snap_timestamp r)) rows"
    using assms by simp
  have c: "filter (\<lambda>r. f (snap_timestamp r) = h) rows = filter (\<lambda>r. g (snap_timestamp r) = h) rows" for h
    using assms by (intro filter_cong) simp_all
  show ?thesis
    unfolding buckets_by_def m c ..
qed

lemma buckets_by_descending:
  "sorted_wrt (\<lambda>a b. hc_hour b < hc_hour a) (buckets_by bucket limit rows)"
proof -
  let ?keys = "sort (remdups (map (\<lambda>r. bucket (snap_timestamp r)) rows))"
  have "sorted_wrt (<) ?keys"
    by (simp add: strict_sorted_iff)
  then have "sorted_wrt (\<lambda>a b. b < a) (rev ?keys)"
    by (simp add: sorted_wrt_rev)
  then show ?thesis
    unfolding buckets_by_def
    by (intro sorted_wrt_take) (simp add: sorted_wrt_map)
qed

lemma buckets_by_counts:
  assumes "b \<in> set (buckets_by bucket limit rows)"
  shows "hc_count b = length (filter (\<lambda>r. bucket (snap_timestamp r) = hc_hour b) rows) \<and>
         0 < hc_count b"
proof -
  from assms obtain h where h: "h \<in> bucket ` snap_timestamp ` set rows"
      and b: "b = \<lparr>hc_hour = h, hc_count = length (filter (\<lambda>r. bucket (snap_timestamp r) = h) rows)\<rparr>"
    unfolding buckets_by_def by (auto dest!: in_set_takeD)
  from h obtain r where "r \<in> set rows" "bucket (snap_timestamp r) = h" by auto
  then have "filter (\<lambda>r. bucket (snap_timestamp r) = h) rows \<noteq> []"
    by (auto simp: filter_empty_conv)
  with b show ?thesis by simp
qed


text \<open>
  Claim C6, as the code has it. For every store and every limit the buckets are
  those of \<^verbatim>\<open>timestamp/3600\<close> in SQLite's integer division, which truncates toward
  zero; for a store without negative timestamps this is \<open>floor (timestamp / 3600)\<close>.
  There is one pair per bucket that holds a row, its count is the number of rows in
  the bucket, the pairs are in strictly descending order of the hour, at most
  \<open>limit\<close> of them are returned, from the largest hour down, and the congestion
  summary asks for 24.
\<close>

theorem hourly_buckets_by_truncated_hour:
  "hourly_buckets limit rows = buckets_by (\<lambda>t. sql_div t 3600) limit rows \<and>
   ((\<forall>r \<in> set rows. 0 \<le> snap_timestamp r) \<longrightarrow>
      hourly_buckets limit rows = buckets_by (\<lambda>t. t div 3600) limit rows) \<and>
   sorted_wrt (\<lambda>a b. hc_hour b < hc_hour a) (hourly_buckets limit rows) \<and>
   length (hourly_buckets limit rows) \<le> limit \<and>
   (\<forall>b \<in> set (hourly_buckets limit rows).
      hc_count b = length (filter (\<lambda>r. sql_div (snap_timestamp r) 3600 = hc_hour b) rows) \<and>
      0 < hc_count b) \<and>
   (\<exists>r. api_stats_summary w sys = Json r \<and>
        flights_per_hour r = hourly_buckets 24 (flight_snapshots sys))"
proof (intro conjI impI ballI)
  show grouping: "hourly_buckets limit rows = buckets_by (\<lambda>t. sql_div t 3600) limit rows"
    by (rule hourly_buckets_grouping)
  show "hourly_buckets limit rows = buckets_by (\<lambda>t. t div 3600) limit rows"
    if "\<forall>r \<in> set rows. 0 \<le> snap_timestamp r"
    unfolding grouping using that by (intro buckets_by_cong) (simp add: sql_div_nonneg)
  show "sorted_wrt (\<lambda>a b. hc_hour b < hc_hour a) (hourly_buckets limit rows)"
    unfolding grouping by (rule buckets_by_descending)
  show "length (hourly_buckets limit rows) \<le> limit"
    by (simp add: hourly_buckets_def)
  show "hc_count b = length (filter (\<lambda>r. sql_div (snap_timestamp r) 3600 = hc_hour b) rows)"
    if "b \<in> set (hourly_buckets limit rows)" for b
    using buckets_by_counts [OF that [unfolded grouping]] by (rule conjunct1)
  show "0 < hc_count b" if "b \<in> set (hourly_buckets limit rows)" for b
    using buckets_by_counts [OF that [unfolded grouping]] by (rule conjunct2)
  show "\<exists>r. api_stats_summary w sys = Json r \<and>
        flights_per_hour r = hourly_buckets 24 (flight_snapshots sys)"
    by (simp add: api_stats_summary_def Let_def)
qed



text \<open>Four rows in the hours 0 and 1, read with the limits 24 and 1.\<close>

theorem hourly_buckets_by_truncated_hour_witness:
  "hourly_buckets 24 [sample_row 0, sample_row 3600, sample_row 7199, sample_row 400] =
     [\<lparr>hc_hour = 1, hc_count = 2\<rparr>, \<lparr>hc_hour = 0, hc_count = 2\<rparr>] \<and>
   hourly_buckets 1 [sample_row 0, sample_row 3600, sample_row 7199, sample_row 400] =
     [\<lparr>hc_hour = 1, hc_count = 2\<rparr>]"
proof -
  let ?rows = "[sample_row 0, sample_row 3600, sample_row 7199, sample_row 400]"
  have nonneg: "\<forall>r \<in> set ?rows. 0 \<le> snap_timestamp r"
    by (simp add: sample_row_def)
  have day: "buckets_by (\<lambda>t. t div 3600) 24 ?rows =
      [\<lparr>hc_hour = 1, hc_count = 2\<rparr>, \<lparr>hc_hour = 0, hc_count = 2\<rparr>]"
    by (simp add: buckets_by_def sample_row_def)
  have one: "buckets_by (\<lambda>t. t div 3600) 1 ?rows = [\<lparr>hc_hour = 1, hc_count = 2\<rparr>]"
    by (simp add: buckets_by_def sample_row_def)
  have "hourly_buckets 24 ?rows = buckets_by (\<lambda>t. t div 3600) 24 ?rows"
    using hourly_buckets_by_truncated_hour [of 24 ?rows] nonneg by blast
  moreover have "hourly_buckets 1 ?rows = buckets_by (\<lambda>t. t div 3600) 1 ?rows"
    using hourly_buckets_by_truncated_hour [of 1 ?rows] nonneg by blast
  ultimately show ?thesis
    by (simp only: day one)
qed

text \<open>
  A row one second before the epoch is counted in hour 0 together with a row one
  second after it; \<open>floor\<close> puts it into hour \<open>- 1\<close>.
\<close>

theorem hourly_buckets_floor_counterexample:
  "api_stats_summary (offline_world 0)
      \<lparr>airports = [], flight_snapshots = [sample_row (- 1), sample_row 1], requests_sent = []\<rparr> =
     Json \<lparr>recent_snapshot_count = 2, congestion_level = ''LOW'',
           flights_per_hour = [\<lparr>hc_hour = 0, hc_count = 2\<rparr>]\<rparr> \<and>
   buckets_by (\<lambda>t. t div 3600) 24 [sample_row (- 1), sample_row 1] =
     [\<lparr>hc_hour = 0, hc_count = 1\<rparr>, \<lparr>hc_hour = - 1, hc_count = 1\<rparr>]"
proof -
  have groups: "hourly_buckets 24 [sample_row (- 1), sample_row 1] = [\<lparr>hc_hour = 0, hc_count = 2\<rparr>]"
    by (simp add: hourly_buckets_def group_count_def order_desc_def sql_div_def sample_row_def)
  have floors: "buckets_by (\<lambda>t. t div 3600) 24 [sample_row (- 1), sample_row 1] =
     [\<lparr>hc_hour = 0, hc_count = 1\<rparr>, \<lparr>hc_hour = - 1, hc_count = 1\<rparr>]"
    by (simp add: buckets_by_def sample_row_def)
  have "api_stats_summary (offline_world 0)
      \<lparr>airports = [], flight_snapshots = [sample_row (- 1), sample_row 1], requests_sent = []\<rparr> =
     Json \<lparr>recent_snapshot_count = 2, congestion_level = ''LOW'',
           flights_per_hour = hourly_buckets 24 [sample_row (- 1), sample_row 1]\<rparr>"
    by (simp add: api_stats_summary_def offline_world_def count_since_def sample_row_def)
  then show ?thesis
    by (simp only: groups floors)
qed


subsection \<open>Great-circle distance\<close>

lemma radians_diff: "radians (u - v) = radians u - radians v"
  by (simp add: radians_def left_diff_distrib)

lemma sin_half_swap: "(sin (radians (u - v) / 2))\<^sup>2 = (sin (radians (v - u) / 2))\<^sup>2"
proof -
  have "radians (u - v) / 2 = - (radians (v - u) / 2)"
    unfolding radians_diff by argo
  then show ?thesis
    by (simp only: sin_minus power2_minus)
qed

text \<open>
  Claim C8. The distance of a point to itself is zero, and the distance does not
  change when the two points are exchanged, for all coordinates.
\<close>

theorem haversine_zero_and_symmetric:
  "haversine lat lon lat lon = 0 \<and>
   haversine lat1 lon1 lat2 lon2 = haversine lat2 lon2 lat1 lon1"
proof
  show "haversine lat lon lat lon = 0"
    by (simp add: haversine_def radians_def)
  show "haversine lat1 lon1 lat2 lon2 = haversine lat2 lon2 lat1 lon1"
    unfolding haversine_def Let_def
    by (simp only: sin_half_swap [of lat2 lat1] sin_half_swap [of lon2 lon1] mult.commute [of "cos (radians lat1)"])
qed


text \<open>
  The argument of \<^verbatim>\<open>sqrt\<close> lies between 0 and 1 for all coordinates, so neither
  \<^verbatim>\<open>math.sqrt\<close> nor \<^verbatim>\<open>math.asin\<close> is applied outside its domain. Along the equator
  the distance is the radius times the difference of longitude in radians.
\<close>

lemma haversine_argument_range:
  fixes lat1 lon1 lat2 lon2 :: real
  defines "a \<equiv> (sin (radians (lat2 - lat1) / 2))\<^sup>2 +
             cos (radians lat1) * cos (radians lat2) * (sin (radians (lon2 - lon1) / 2))\<^sup>2"
  shows "0 \<le> a \<and> a \<le> 1"
proof -
  define p where "p = radians lat1"
  define q where "q = radians lat2"
  define s where "s = (sin (radians (lon2 - lon1) / 2))\<^sup>2"
  define C where "C = cos (q - p)"
  define D where "D = cos (q + p)"
  have s: "0 \<le> s" "s \<le> 1"
  proof -
    show "0 \<le> s"
      unfolding s_def by simp
    have "(sin x)\<^sup>2 + (cos x)\<^sup>2 = 1" for x :: real
      by simp
    then have "(sin x)\<^sup>2 \<le> 1" for x :: real
      using zero_le_power2 [of "cos x"] by (metis add.commute le_add_same_cancel2)
    then show "s \<le> 1"
      unfolding s_def .
  qed
  have C: "- 1 \<le> C" "C \<le> 1" and D: "- 1 \<le> D" "D \<le> 1"
    unfolding C_def D_def by simp_all
  have twice: "2 * ((q - p) / 2) = q - p"
    by simp
  have "C = 1 - 2 * (sin ((q - p) / 2))\<^sup>2"
    unfolding C_def using cos_double_sin [of "(q - p) / 2"] by (simp only: twice)
  then have half: "(sin ((q - p) / 2))\<^sup>2 = (1 - C) / 2"
    by argo
  have prod: "cos p * cos q = (C + D) / 2"
    unfolding C_def D_def by (simp add: cos_diff cos_add)
  have lat: "radians (lat2 - lat1) = q - p"
    by (simp add: radians_diff p_def q_def)
  have a: "a = (1 - C) / 2 + (C + D) / 2 * s"
    unfolding a_def s_def [symmetric] p_def [symmetric] q_def [symmetric] lat
    by (simp only: half prod)
  have "0 \<le> (1 - C) * (1 - s)" and "0 \<le> s * (1 + D)"
    using s C D by (simp_all add: mult_nonneg_nonneg)
  then have lower: "0 \<le> (1 - C) * (1 - s) + s * (1 + D)"
    by (rule add_nonneg_nonneg)
  have "0 \<le> (1 + C) * (1 - s)" and "0 \<le> s * (1 - D)"
    using s C D by (simp_all add: mult_nonneg_nonneg)
  then have upper: "0 \<le> (1 + C) * (1 - s) + s * (1 - D)"
    by (rule add_nonneg_nonneg)
  have "2 * a = (1 - C) * (1 - s) + s * (1 + D)"
    unfolding a by (simp add: field_simps)
  moreover have "2 - 2 * a = (1 + C) * (1 - s) + s * (1 - D)"
    unfolding a by (simp add: field_simps)
  ultimately show ?thesis
    using lower upper by linarith
qed

lemma haversine_equator:
  assumes "0 \<le> x" and "x \<le> 180"
  shows "haversine 0 0 0 x = 6371 * (x * pi / 180)"
proof -
  define h where "h = x * (pi / 180) / 2"
  have range: "0 \<le> h" "h \<le> pi / 2"
    using assms unfolding h_def by (simp_all add: field_simps)
  have "0 \<le> sin h"
    using range by (intro sin_ge_zero) (simp_all add: field_simps)
  then have root: "sqrt ((sin h)\<^sup>2) = sin h"
    by simp
  have "- (pi / 2) \<le> h"
    using range(1) pi_ge_zero by linarith
  then have inverse: "arcsin (sin h) = h"
    using range(2) by (rule arcsin_sin)
  have "haversine 0 0 0 x = 6371 * (2 * arcsin (sqrt ((sin h)\<^sup>2)))"
    unfolding h_def by (simp add: haversine_def radians_def)
  also have "\<dots> = 6371 * (2 * h)"
    by (simp only: root inverse)
  also have "\<dots> = 6371 * (x * pi / 180)"
    unfolding h_def by simp
  finally show ?thesis .
qed

subsection \<open>Airport traffic\<close>

text \<open>
  The loop appends, in the order of the feed, the entry of every state vector
  with a position to the list its distance and heading select.
\<close>

lemma traffic_step_no_position:
  "\<not> has_position s \<Longrightarrow> traffic_step lat0 lon0 s b = b"
  by (auto simp: traffic_step_def has_position_def Let_def split: option.splits)

lemma traffic_step_position:
  assumes "has_position s"
  shows "traffic_step lat0 lon0 s b =
     (if distance_to lat0 lon0 s \<le> 100 then
        if 30 < distance_to lat0 lon0 s \<and> py_or0 (sv_heading s) \<noteq> 0 \<and>
           py_or0 (sv_heading s) \<noteq> 360
          then b\<lparr>arrivals := arrivals b @ [traffic_entry lat0 lon0 s]\<rparr>
        else if distance_to lat0 lon0 s < 30
          then b\<lparr>departures := departures b @ [traffic_entry lat0 lon0 s]\<rparr>
        else b\<lparr>others := others b @ [traffic_entry lat0 lon0 s]\<rparr>
      else b)"
  using assms
  by (auto simp: traffic_step_def has_position_def distance_to_def traffic_entry_def Let_def)

lemma traffic_loop_buckets:
  "traffic_loop lat0 lon0 states b =
     \<lparr>arrivals = arrivals b @ map (traffic_entry lat0 lon0)
        (filter (\<lambda>s. has_position s \<and> distance_to lat0 lon0 s \<le> 100 \<and>
                     30 < distance_to lat0 lon0 s \<and>
                     py_or0 (sv_heading s) \<noteq> 0 \<and> py_or0 (sv_heading s) \<noteq> 360) states),
      departures = departures b @ map (traffic_entry lat0 lon0)
        (filter (\<lambda>s. has_position s \<and> distance_to lat0 lon0 s < 30) states),
      others = others b @ map (traffic_entry lat0 lon0)
        (filter (\<lambda>s. has_position s \<and> distance_to lat0 lon0 s \<le> 100 \<and>
                     (distance_to lat0 lon0 s = 30 \<or>
                      30 < distance_to lat0 lon0 s \<and>
                      (py_or0 (sv_heading s) = 0 \<or> py_or0 (sv_heading s) = 360))) states)\<rparr>"
proof (induction states arbitrary: b)
  case Nil
  show ?case by simp
next
  case (Cons s states)
  show ?case
  proof (cases "has_position s")
    case False
    then show ?thesis
      by (simp add: traffic_step_no_position Cons.IH)
  next
    case True
    then show ?thesis
      by (simp add: traffic_step_position Cons.IH)
  qed
qed


lemma traffic_entry_determines:
  assumes "traffic_entry lat0 lon0 s' = traffic_entry lat0 lon0 s"
  shows "distance_to lat0 lon0 s' = distance_to lat0 lon0 s"
    and "py_or0 (sv_heading s') = py_or0 (sv_heading s)"
proof -
  have "ti_lat (traffic_entry lat0 lon0 s') = ti_lat (traffic_entry lat0 lon0 s)"
    and "ti_lon (traffic_entry lat0 lon0 s') = ti_lon (traffic_entry lat0 lon0 s)"
    and "ti_heading (traffic_entry lat0 lon0 s') = ti_heading (traffic_entry lat0 lon0 s)"
    using assms by simp_all
  then show "distance_to lat0 lon0 s' = distance_to lat0 lon0 s"
    and "py_or0 (sv_heading s') = py_or0 (sv_heading s)"
    by (simp_all add: traffic_entry_def distance_to_def)
qed

lemma traffic_bucket_membership:
  fixes lat0 lon0 :: real and states :: "state_vector list"
  defines "b \<equiv> traffic_loop lat0 lon0 states \<lparr>arrivals = [], departures = [], others = []\<rparr>"
  assumes "s \<in> set states" and "has_position s"
  shows "traffic_entry lat0 lon0 s \<in> set (arrivals b) \<longleftrightarrow>
           distance_to lat0 lon0 s \<le> 100 \<and> 30 < distance_to lat0 lon0 s \<and>
           py_or0 (sv_heading s) \<noteq> 0 \<and> py_or0 (sv_heading s) \<noteq> 360"
    and "traffic_entry lat0 lon0 s \<in> set (departures b) \<longleftrightarrow> distance_to lat0 lon0 s < 30"
    and "traffic_entry lat0 lon0 s \<in> set (others b) \<longleftrightarrow>
           distance_to lat0 lon0 s \<le> 100 \<and>
           (distance_to lat0 lon0 s = 30 \<or>
            30 < distance_to lat0 lon0 s \<and>
            (py_or0 (sv_heading s) = 0 \<or> py_or0 (sv_heading s) = 360))"
  unfolding b_def traffic_loop_buckets
  using assms(2,3) by (auto dest: traffic_entry_determines)


lemma sample_distance:
  assumes "0 \<le> x" and "x \<le> 180"
  shows "distance_to 0 0 (sample_vector c (Some 0) (Some x) a h) = 6371 * (x * pi / 180)"
  using haversine_equator [OF assms] by (simp add: distance_to_def sample_vector_def)

lemma ring_longitude: "0 \<le> 5400 / (6371 * pi)" "5400 / (6371 * pi) \<le> 180"
proof -
  show "0 \<le> 5400 / (6371 * pi)"
    by simp
  have "5400 \<le> 180 * (6371 * pi)"
    using pi_ge_two by simp
  then show "5400 / (6371 * pi) \<le> 180"
    by (simp add: field_simps)
qed

lemma sample_distances:
  "distance_to 0 0 arriving = 6371 * pi / 360"
  "distance_to 0 0 northbound = 6371 * pi / 360"
  "distance_to 0 0 silent = 6371 * pi / 360"
  "distance_to 0 0 departing = 0"
  "distance_to 0 0 silent_near = 0"
  "distance_to 0 0 far_away = 6371 * pi / 90"
  "distance_to 0 0 on_the_ring = 30"
  unfolding arriving_def northbound_def silent_def departing_def silent_near_def far_away_def
    on_the_ring_def
  by (simp_all add: sample_distance ring_longitude)

lemma sample_distance_bounds:
  "30 < distance_to 0 0 arriving" "distance_to 0 0 arriving \<le> 100"
  "30 < distance_to 0 0 northbound" "distance_to 0 0 northbound \<le> 100"
  "30 < distance_to 0 0 silent" "distance_to 0 0 silent \<le> 100"
  "100 < distance_to 0 0 far_away"
  unfolding sample_distances using pi_ge_two pi_less_4 by simp_all

lemma sample_distance_order:
  "\<not> distance_to 0 0 arriving < 30" "distance_to 0 0 arriving \<noteq> 30"
  "\<not> distance_to 0 0 northbound < 30" "distance_to 0 0 northbound \<noteq> 30"
  "\<not> distance_to 0 0 silent < 30" "distance_to 0 0 silent \<noteq> 30"
  "30 \<le> distance_to 0 0 silent"
  "\<not> distance_to 0 0 far_away \<le> 100" "\<not> distance_to 0 0 far_away < 30"
  "30 < distance_to 0 0 far_away" "distance_to 0 0 far_away \<noteq> 30"
  using sample_distance_bounds by simp_all

lemma sample_positions:
  "has_position arriving" "has_position departing" "has_position on_the_ring"
  "has_position far_away" "has_position northbound" "has_position silent"
  "has_position silent_near" "\<not> has_position no_position"
  by (simp_all add: has_position_def sample_vector_def arriving_def departing_def
      on_the_ring_def far_away_def northbound_def silent_def silent_near_def no_position_def)

lemma sample_headings:
  "py_or0 (sv_heading arriving) = 90" "py_or0 (sv_heading departing) = 90"
  "py_or0 (sv_heading on_the_ring) = 90" "py_or0 (sv_heading far_away) = 90"
  "py_or0 (sv_heading northbound) = 360" "py_or0 (sv_heading silent) = 0"
  "py_or0 (sv_heading silent_near) = 0"
  by (simp_all add: py_or0_def sample_vector_def arriving_def departing_def
      on_the_ring_def far_away_def northbound_def silent_def silent_near_def)

text \<open>
  Claim C1. For every airport position and every feed, the three lists hold the
  entries of the state vectors with a position, in feed order: arrivals those at
  more than 30 km and at most 100 km whose heading is neither 0 nor 360,
  departures those at less than 30 km, others the remaining ones within 100 km,
  which are those at exactly 30 km with any heading and those beyond 30 km whose
  heading is 0 or 360. A state vector farther than 100 km has its entry in none
  of the lists, and an entry is in one list only. The heading is the feed's
  value, or 0 where the feed has none.
\<close>

theorem traffic_classification_rule:
  fixes lat0 lon0 :: real and states :: "state_vector list"
  defines "b \<equiv> traffic_loop lat0 lon0 states \<lparr>arrivals = [], departures = [], others = []\<rparr>"
  shows
    "arrivals b = map (traffic_entry lat0 lon0)
        (filter (\<lambda>s. has_position s \<and> distance_to lat0 lon0 s \<le> 100 \<and>
                     30 < distance_to lat0 lon0 s \<and>
                     py_or0 (sv_heading s) \<noteq> 0 \<and> py_or0 (sv_heading s) \<noteq> 360) states) \<and>
     departures b = map (traffic_entry lat0 lon0)
        (filter (\<lambda>s. has_position s \<and> distance_to lat0 lon0 s < 30) states) \<and>
     others b = map (traffic_entry lat0 lon0)
        (filter (\<lambda>s. has_position s \<and> distance_to lat0 lon0 s \<le> 100 \<and>
                     (distance_to lat0 lon0 s = 30 \<or>
                      30 < distance_to lat0 lon0 s \<and>
                      (py_or0 (sv_heading s) = 0 \<or> py_or0 (sv_heading s) = 360))) states) \<and>
     (\<forall>s \<in> set states. has_position s \<longrightarrow>
        (100 < distance_to lat0 lon0 s \<longrightarrow>
           traffic_entry lat0 lon0 s \<notin> set (arrivals b) \<and>
           traffic_entry lat0 lon0 s \<notin> set (departures b) \<and>
           traffic_entry lat0 lon0 s \<notin> set (others b)) \<and>
        (distance_to lat0 lon0 s \<le> 100 \<and> 30 < distance_to lat0 lon0 s \<and>
         py_or0 (sv_heading s) \<noteq> 0 \<and> py_or0 (sv_heading s) \<noteq> 360 \<longrightarrow>
           traffic_entry lat0 lon0 s \<in> set (arrivals b) \<and>
           traffic_entry lat0 lon0 s \<notin> set (departures b) \<and>
           traffic_entry lat0 lon0 s \<notin> set (others b)) \<and>
        (distance_to lat0 lon0 s < 30 \<longrightarrow>
           traffic_entry lat0 lon0 s \<in> set (departures b) \<and>
           traffic_entry lat0 lon0 s \<notin> set (arrivals b) \<and>
           traffic_entry lat0 lon0 s \<notin> set (others b)) \<and>
        (distance_to lat0 lon0 s = 30 \<or>
         30 < distance_to lat0 lon0 s \<and> distance_to lat0 lon0 s \<le> 100 \<and>
         (py_or0 (sv_heading s) = 0 \<or> py_or0 (sv_heading s) = 360) \<longrightarrow>
           traffic_entry lat0 lon0 s \<in> set (others b) \<and>
           traffic_entry lat0 lon0 s \<notin> set (arrivals b) \<and>
           traffic_entry lat0 lon0 s \<notin> set (departures b)))"
proof (intro conjI ballI impI)
  show "arrivals b = map (traffic_entry lat0 lon0)
        (filter (\<lambda>s. has_position s \<and> distance_to lat0 lon0 s \<le> 100 \<and>
                     30 < distance_to lat0 lon0 s \<and>
                     py_or0 (sv_heading s) \<noteq> 0 \<and> py_or0 (sv_heading s) \<noteq> 360) states)"
    unfolding b_def traffic_loop_buckets by simp
  show "departures b = map (traffic_entry lat0 lon0)
        (filter (\<lambda>s. has_position s \<and> distance_to lat0 lon0 s < 30) states)"
    unfolding b_def traffic_loop_buckets by simp
  show "others b = map (traffic_entry lat0 lon0)
        (filter (\<lambda>s. has_position s \<and> distance_to lat0 lon0 s \<le> 100 \<and>
                     (distance_to lat0 lon0 s = 30 \<or>
                      30 < distance_to lat0 lon0 s \<and>
                      (py_or0 (sv_heading s) = 0 \<or> py_or0 (sv_heading s) = 360))) states)"
    unfolding b_def traffic_loop_buckets by simp
qed (auto simp: b_def traffic_bucket_membership)

text \<open>
  Eight state vectors on the equator: one arrives, two are within 30 km, one is
  at exactly 30 km, one at two degrees is outside the radius, one flies heading
  360, one has no heading, one has no position.
\<close>

theorem traffic_classification_rule_witness:
  "traffic_loop 0 0 equator_states \<lparr>arrivals = [], departures = [], others = []\<rparr> =
     \<lparr>arrivals = [traffic_entry 0 0 arriving],
      departures = [traffic_entry 0 0 departing, traffic_entry 0 0 silent_near],
      others = [traffic_entry 0 0 on_the_ring, traffic_entry 0 0 northbound,
                traffic_entry 0 0 silent]\<rparr>"
proof -
  note facts = sample_positions sample_headings sample_distances(4,5,7)
    sample_distance_bounds sample_distance_order
  note rule = traffic_classification_rule [of 0 0 equator_states]
  have "arrivals (traffic_loop 0 0 equator_states \<lparr>arrivals = [], departures = [], others = []\<rparr>) =
      [traffic_entry 0 0 arriving]"
    unfolding rule [THEN conjunct1] by (simp add: equator_states_def facts)
  moreover have
    "departures (traffic_loop 0 0 equator_states \<lparr>arrivals = [], departures = [], others = []\<rparr>) =
      [traffic_entry 0 0 departing, traffic_entry 0 0 silent_near]"
    unfolding rule [THEN conjunct2, THEN conjunct1] by (simp add: equator_states_def facts)
  moreover have
    "others (traffic_loop 0 0 equator_states \<lparr>arrivals = [], departures = [], others = []\<rparr>) =
      [traffic_entry 0 0 on_the_ring, traffic_entry 0 0 northbound, traffic_entry 0 0 silent]"
    unfolding rule [THEN conjunct2, THEN conjunct2, THEN conjunct1]
    by (simp add: equator_states_def facts)
  ultimately show ?thesis
    by (intro traffic_buckets.equality) simp_all
qed

text \<open>
  Claim C10. A state vector with a position whose heading is null gets the
  heading 0 in its entry; the entry is never among the arrivals, it is among the
  departures exactly when the distance is below 30 km, among the others exactly
  when the distance is from 30 km up to 100 km, and in no list beyond 100 km.
\<close>

theorem null_heading_never_arrives:
  fixes lat0 lon0 :: real and states :: "state_vector list"
  defines "b \<equiv> traffic_loop lat0 lon0 states \<lparr>arrivals = [], departures = [], others = []\<rparr>"
  assumes "s \<in> set states" and "has_position s" and "sv_heading s = None"
  shows
    "ti_heading (traffic_entry lat0 lon0 s) = 0 \<and>
     traffic_entry lat0 lon0 s \<notin> set (arrivals b) \<and>
     (traffic_entry lat0 lon0 s \<in> set (departures b) \<longleftrightarrow> distance_to lat0 lon0 s < 30) \<and>
     (traffic_entry lat0 lon0 s \<in> set (others b) \<longleftrightarrow>
        30 \<le> distance_to lat0 lon0 s \<and> distance_to lat0 lon0 s \<le> 100) \<and>
     (100 < distance_to lat0 lon0 s \<longrightarrow>
        traffic_entry lat0 lon0 s \<notin> set (departures b) \<and>
        traffic_entry lat0 lon0 s \<notin> set (others b))"
proof -
  have heading: "py_or0 (sv_heading s) = 0"
    using assms(4) by (simp add: py_or0_def)
  show ?thesis
    unfolding b_def
    using traffic_bucket_membership [OF assms(2,3), of lat0 lon0] heading
    by (auto simp: traffic_entry_def)
qed

text \<open>The two sample state vectors without a heading, at 55.6 km and at 0 km.\<close>

theorem null_heading_never_arrives_witness:
  "silent \<in> set equator_states \<and> has_position silent \<and> sv_heading silent = None \<and>
   ti_heading (traffic_entry 0 0 silent) = 0 \<and>
   traffic_entry 0 0 silent \<notin>
     set (arrivals (traffic_loop 0 0 equator_states \<lparr>arrivals = [], departures = [], others = []\<rparr>)) \<and>
   traffic_entry 0 0 silent \<in>
     set (others (traffic_loop 0 0 equator_states \<lparr>arrivals = [], departures = [], others = []\<rparr>)) \<and>
   traffic_entry 0 0 silent_near \<in>
     set (departures (traffic_loop 0 0 equator_states \<lparr>arrivals = [], departures = [], others = []\<rparr>))"
proof -
  have member: "silent \<in> set equator_states" "silent_near \<in> set equator_states"
    by (simp_all add: equator_states_def)
  have null: "sv_heading silent = None" "sv_heading silent_near = None"
    by (simp_all add: silent_def silent_near_def sample_vector_def)
  show ?thesis
    using null_heading_never_arrives [OF member(1) sample_positions(6) null(1), of 0 0]
      null_heading_never_arrives [OF member(2) sample_positions(7) null(2), of 0 0]
    by (simp add: member null sample_positions sample_distances(5) sample_distance_bounds
        sample_distance_order)
qed

subsection \<open>Unknown airports and the unconfigured provider\<close>

text \<open>The two handlers, case by case.\<close>

lemma fetch_openweather_unconfigured:
  "\<not> weather_configured w \<Longrightarrow> fetch_openweather w lat lon sys = (Inr None, sys)"
  by (auto simp: fetch_openweather_def weather_configured_def split: option.splits)

lemma fetch_openweather_configured:
  "weather_configured w \<Longrightarrow> fetch_openweather w lat lon sys =
     (case openweather_answer w lat lon of Inl e \<Rightarrow> Inl e | Inr body \<Rightarrow> Inr (Some body),
      sys\<lparr>requests_sent := requests_sent sys @ [OpenWeatherRequest lat lon]\<rparr>)"
  by (auto simp: fetch_openweather_def weather_configured_def split: option.splits)

lemma weather_unknown:
  "find_airport (str_upper code) (airports sys) = None \<Longrightarrow>
     api_airport_weather w code sys = (Inr (JsonError ''Unknown airport'' 404), sys)"
  by (simp add: api_airport_weather_def)

lemma traffic_unknown:
  "find_airport (str_upper code) (airports sys) = None \<Longrightarrow>
     api_airport_traffic w code sys = (Inr (JsonError ''Unknown airport'' 404), sys)"
  by (simp add: api_airport_traffic_def)

lemma weather_known_unconfigured:
  "find_airport (str_upper code) (airports sys) = Some ap \<Longrightarrow> \<not> weather_configured w \<Longrightarrow>
     api_airport_weather w code sys = (Inr (JsonError ''Weather API not configured'' 500), sys)"
  by (simp add: api_airport_weather_def fetch_openweather_unconfigured)

lemma weather_known_configured:
  assumes "find_airport (str_upper code) (airports sys) = Some ap" and "weather_configured w"
  shows "api_airport_weather w code sys =
     (case openweather_answer w (ap_lat ap) (ap_lon ap) of
        Inl e \<Rightarrow> Inl e
      | Inr body \<Rightarrow>
          (case wo_weather body of
             [] \<Rightarrow> Inl IndexError
           | first # rest \<Rightarrow>
               Inr (Json \<lparr>wr_airport = ap_code ap, wr_name = ap_name ap, wr_city = ap_city ap,
                          wr_country = ap_country ap, wr_temp = wo_temp body,
                          wr_condition = wi_description first,
                          wr_wind_speed = wo_wind_speed body,
                          wr_risk = weather_risk (wi_main first) (wo_wind_speed body)\<rparr>)),
      sys\<lparr>requests_sent := requests_sent sys @ [OpenWeatherRequest (ap_lat ap) (ap_lon ap)]\<rparr>)"
  using assms
  by (simp add: api_airport_weather_def fetch_openweather_configured Let_def
      split: sum.splits list.splits)

lemma traffic_known:
  assumes "find_airport (str_upper code) (airports sys) = Some ap"
  shows "api_airport_traffic w code sys =
     (case opensky_answer w of
        Inl e \<Rightarrow> Inl e
      | Inr data \<Rightarrow>
          Inr (Json \<lparr>tr_airport = ap_code ap, tr_name = ap_name ap,
             tr_arrivals = arrivals (traffic_loop (ap_lat ap) (ap_lon ap)
                (case od_states data of None \<Rightarrow> [] | Some ss \<Rightarrow> ss)
                \<lparr>arrivals = [], departures = [], others = []\<rparr>),
             tr_departures = departures (traffic_loop (ap_lat ap) (ap_lon ap)
                (case od_states data of None \<Rightarrow> [] | Some ss \<Rightarrow> ss)
                \<lparr>arrivals = [], departures = [], others = []\<rparr>),
             tr_others = others (traffic_loop (ap_lat ap) (ap_lon ap)
                (case od_states data of None \<Rightarrow> [] | Some ss \<Rightarrow> ss)
                \<lparr>arrivals = [], departures = [], others = []\<rparr>)\<rparr>),
      sys\<lparr>requests_sent := requests_sent sys @ [OpenSkyRequest]\<rparr>)"
  using assms
  by (simp add: api_airport_traffic_def fetch_opensky_states_def Let_def split: sum.splits)


lemma weather_outcomes:
  fixes w :: world and code :: string and sys :: system
  defines "found \<equiv> find_airport (str_upper code) (airports sys)"
  defines "r \<equiv> fst (api_airport_weather w code sys)"
  shows "(is_not_found r \<longleftrightarrow> found = None) \<and>
    (is_unconfigured r \<longleftrightarrow> found \<noteq> None \<and> \<not> weather_configured w) \<and>
    (is_success r \<longleftrightarrow> (\<exists>ap. found = Some ap \<and> weather_configured w \<and> weather_answers w ap)) \<and>
    (is_raised r \<longleftrightarrow> (\<exists>ap. found = Some ap \<and> weather_configured w \<and> \<not> weather_answers w ap))"
proof (cases found)
  case None
  then have "r = Inr (JsonError ''Unknown airport'' 404)"
    unfolding r_def found_def by (simp add: weather_unknown)
  with None show ?thesis
    by (simp add: is_not_found_def is_unconfigured_def is_success_def is_raised_def)
next
  case (Some ap)
  show ?thesis
  proof (cases "weather_configured w")
    case False
    with Some have "r = Inr (JsonError ''Weather API not configured'' 500)"
      unfolding r_def found_def by (simp add: weather_known_unconfigured)
    with Some False show ?thesis
      by (simp add: is_not_found_def is_unconfigured_def is_success_def is_raised_def)
  next
    case True
    with Some have r: "r = (case openweather_answer w (ap_lat ap) (ap_lon ap) of
        Inl e \<Rightarrow> Inl e
      | Inr body \<Rightarrow>
          (case wo_weather body of
             [] \<Rightarrow> Inl IndexError
           | first # rest \<Rightarrow>
               Inr (Json \<lparr>wr_airport = ap_code ap, wr_name = ap_name ap, wr_city = ap_city ap,
                          wr_country = ap_country ap, wr_temp = wo_temp body,
                          wr_condition = wi_description first,
                          wr_wind_speed = wo_wind_speed body,
                          wr_risk = weather_risk (wi_main first) (wo_wind_speed body)\<rparr>)))"
      unfolding r_def found_def by (simp add: weather_known_configured)
    from Some True show ?thesis
      unfolding r
      by (simp add: is_not_found_def is_unconfigured_def is_success_def is_raised_def
          weather_answers_def split: sum.splits list.splits)
  qed
qed

lemma traffic_outcomes:
  fixes w :: world and code :: string and sys :: system
  defines "found \<equiv> find_airport (str_upper code) (airports sys)"
  defines "r \<equiv> fst (api_airport_traffic w code sys)"
  shows "(is_not_found r \<longleftrightarrow> found = None) \<and> \<not> is_unconfigured r \<and>
    (is_success r \<longleftrightarrow> found \<noteq> None \<and> feed_answers w) \<and>
    (is_raised r \<longleftrightarrow> found \<noteq> None \<and> \<not> feed_answers w)"
proof (cases found)
  case None
  then have "r = Inr (JsonError ''Unknown airport'' 404)"
    unfolding r_def found_def by (simp add: traffic_unknown)
  with None show ?thesis
    by (simp add: is_not_found_def is_unconfigured_def is_success_def is_raised_def)
next
  case (Some ap)
  then show ?thesis
    unfolding r_def found_def
    by (simp add: traffic_known is_not_found_def is_unconfigured_def is_success_def
        is_raised_def feed_answers_def split: sum.splits)
qed


lemma sample_lookups:
  "find_airport (str_upper ''bom'') (airports airports_only) = Some mumbai"
  "find_airport (str_upper ''xyz'') (airports airports_only) = None"
  by (simp_all add: find_airport_def airports_only_def mumbai_def str_upper_def ascii_upper_def)

lemma sample_worlds:
  "weather_configured stormy_world" "weather_answers stormy_world mumbai"
  "feed_answers stormy_world" "\<not> weather_configured (offline_world 0)"
  "weather_configured failing_world" "\<not> weather_answers failing_world mumbai"
  by (simp_all add: weather_configured_def weather_answers_def feed_answers_def
      stormy_world_def offline_world_def failing_world_def)

text \<open>
  Claim C9, as the code has it. On both queries an unknown airport code gives
  NotFound with no payload and leaves the state as it was, so no request is sent
  to any provider; for a known airport a missing or empty provider key gives
  Unconfigured on the weather query, again without a request, and the two error
  answers differ; the traffic query never gives Unconfigured. A query succeeds
  exactly when the airport is known and the provider consulted answers. Whenever
  no exception leaves the handler, exactly one of NotFound, Unconfigured and
  success is produced; when the provider's request fails, or its body has no
  weather item, the exception leaves the handler and none of the three is
  produced.
\<close>

theorem airport_query_outcomes:
  fixes w :: world and code :: string and sys :: system
  defines "found \<equiv> find_airport (str_upper code) (airports sys)"
  defines "weather \<equiv> api_airport_weather w code sys"
  defines "traffic \<equiv> api_airport_traffic w code sys"
  shows
    "(found = None \<longrightarrow>
        weather = (Inr (JsonError ''Unknown airport'' 404), sys) \<and>
        traffic = (Inr (JsonError ''Unknown airport'' 404), sys)) \<and>
     (found \<noteq> None \<and> \<not> weather_configured w \<longrightarrow>
        weather = (Inr (JsonError ''Weather API not configured'' 500), sys)) \<and>
     (is_not_found (fst weather) \<longleftrightarrow> found = None) \<and>
     (is_not_found (fst traffic) \<longleftrightarrow> found = None) \<and>
     (is_unconfigured (fst weather) \<longleftrightarrow> found \<noteq> None \<and> \<not> weather_configured w) \<and>
     \<not> is_unconfigured (fst traffic) \<and>
     (is_success (fst weather) \<longleftrightarrow>
        (\<exists>ap. found = Some ap \<and> weather_configured w \<and> weather_answers w ap)) \<and>
     (is_success (fst traffic) \<longleftrightarrow> found \<noteq> None \<and> feed_answers w) \<and>
     (is_raised (fst weather) \<longleftrightarrow>
        (\<exists>ap. found = Some ap \<and> weather_configured w \<and> \<not> weather_answers w ap)) \<and>
     (is_raised (fst traffic) \<longleftrightarrow> found \<noteq> None \<and> \<not> feed_answers w) \<and>
     (\<not> is_raised (fst weather) \<longrightarrow>
        exactly_one (is_not_found (fst weather)) (is_unconfigured (fst weather))
          (is_success (fst weather))) \<and>
     (\<not> is_raised (fst traffic) \<longrightarrow>
        exactly_one (is_not_found (fst traffic)) (is_unconfigured (fst traffic))
          (is_success (fst traffic))) \<and>
     (is_raised (fst weather) \<longrightarrow>
        \<not> is_not_found (fst weather) \<and> \<not> is_unconfigured (fst weather) \<and>
        \<not> is_success (fst weather)) \<and>
     (is_not_found (fst weather) \<longrightarrow> \<not> is_unconfigured (fst weather))"
proof -
  note wo = weather_outcomes [of w code sys, folded found_def weather_def]
  note tr = traffic_outcomes [of w code sys, folded found_def traffic_def]
  have unknown: "weather = (Inr (JsonError ''Unknown airport'' 404), sys)"
      "traffic = (Inr (JsonError ''Unknown airport'' 404), sys)" if "found = None"
    using that unfolding found_def weather_def traffic_def
    by (simp_all add: weather_unknown traffic_unknown)
  have unconfigured: "weather = (Inr (JsonError ''Weather API not configured'' 500), sys)"
    if "found \<noteq> None" "\<not> weather_configured w"
    using that unfolding found_def weather_def
    by (auto simp: weather_known_unconfigured)
  have exclusive: "\<not> (is_not_found r \<and> is_unconfigured r)" "\<not> (is_not_found r \<and> is_success r)"
      "\<not> (is_unconfigured r \<and> is_success r)" "\<not> (is_raised r \<and> is_not_found r)"
      "\<not> (is_raised r \<and> is_unconfigured r)" "\<not> (is_raised r \<and> is_success r)"
      "is_raised r \<or> is_not_found r \<or> is_unconfigured r \<or> is_success r \<or>
       (\<exists>m c. r = Inr (JsonError m c))"
    for r :: "exn + 'a http_response"
    by (auto simp: is_not_found_def is_unconfigured_def is_success_def is_raised_def
        split: sum.splits http_response.splits)
  have total_weather: "is_raised (fst weather) \<or> is_not_found (fst weather) \<or>
      is_unconfigured (fst weather) \<or> is_success (fst weather)"
    using wo by (cases found; cases "weather_configured w") auto
  have total_traffic: "is_raised (fst traffic) \<or> is_not_found (fst traffic) \<or>
      is_success (fst traffic)"
    using tr by (cases found) auto
  have one_weather: "exactly_one (is_not_found (fst weather)) (is_unconfigured (fst weather))
      (is_success (fst weather))" if "\<not> is_raised (fst weather)"
    using that total_weather exclusive(1-3) [of "fst weather"]
    unfolding exactly_one_def by blast
  have one_traffic: "exactly_one (is_not_found (fst traffic)) (is_unconfigured (fst traffic))
      (is_success (fst traffic))" if "\<not> is_raised (fst traffic)"
    using that total_traffic exclusive(1-3) [of "fst traffic"] tr
    unfolding exactly_one_def by blast
  have none_weather: "\<not> is_not_found (fst weather) \<and> \<not> is_unconfigured (fst weather) \<and>
      \<not> is_success (fst weather)" if "is_raised (fst weather)"
    using that exclusive(4-6) [of "fst weather"] by blast
  have distinct: "\<not> is_unconfigured (fst weather)" if "is_not_found (fst weather)"
    using that exclusive(1) [of "fst weather"] by blast
  show ?thesis
  proof (intro conjI impI)
    show "weather = (Inr (JsonError ''Unknown airport'' 404), sys)" if "found = None"
      using that by (rule unknown(1))
    show "traffic = (Inr (JsonError ''Unknown airport'' 404), sys)" if "found = None"
      using that by (rule unknown(2))
    show "weather = (Inr (JsonError ''Weather API not configured'' 500), sys)"
      if "found \<noteq> None \<and> \<not> weather_configured w"
      using that unconfigured by blast
    show "is_not_found (fst weather) \<longleftrightarrow> found = None"
      using wo by (rule conjunct1)
    show "is_not_found (fst traffic) \<longleftrightarrow> found = None"
      using tr by (rule conjunct1)
    show "is_unconfigured (fst weather) \<longleftrightarrow> found \<noteq> None \<and> \<not> weather_configured w"
      using wo by blast
    show "\<not> is_unconfigured (fst traffic)"
      using tr by blast
    show "is_success (fst weather) \<longleftrightarrow>
        (\<exists>ap. found = Some ap \<and> weather_configured w \<and> weather_answers w ap)"
      using wo by blast
    show "is_success (fst traffic) \<longleftrightarrow> found \<noteq> None \<and> feed_answers w"
      using tr by blast
    show "is_raised (fst weather) \<longleftrightarrow>
        (\<exists>ap. found = Some ap \<and> weather_configured w \<and> \<not> weather_answers w ap)"
      using wo by blast
    show "is_raised (fst traffic) \<longleftrightarrow> found \<noteq> None \<and> \<not> feed_answers w"
      using tr by blast
    show "exactly_one (is_not_found (fst weather)) (is_unconfigured (fst weather))
        (is_success (fst weather))" if "\<not> is_raised (fst weather)"
      using that by (rule one_weather)
    show "exactly_one (is_not_found (fst traffic)) (is_unconfigured (fst traffic))
        (is_success (fst traffic))" if "\<not> is_raised (fst traffic)"
      using that by (rule one_traffic)
    show "\<not> is_not_found (fst weather)" "\<not> is_unconfigured (fst weather)"
      "\<not> is_success (fst weather)" if "is_raised (fst weather)"
      using none_weather [OF that] by blast+
    show "\<not> is_unconfigured (fst weather)" if "is_not_found (fst weather)"
      using that by (rule distinct)
  qed
qed


text \<open>
  The code \<open>''xyz''\<close> is unknown; \<open>''bom''\<close> is known and gives Unconfigured without a
  key and a report when the provider answers.
\<close>

theorem airport_query_outcomes_witness:
  "api_airport_weather stormy_world ''xyz'' airports_only =
     (Inr (JsonError ''Unknown airport'' 404), airports_only) \<and>
   api_airport_traffic stormy_world ''xyz'' airports_only =
     (Inr (JsonError ''Unknown airport'' 404), airports_only) \<and>
   api_airport_weather (offline_world 0) ''bom'' airports_only =
     (Inr (JsonError ''Weather API not configured'' 500), airports_only) \<and>
   is_success (fst (api_airport_weather stormy_world ''bom'' airports_only)) \<and>
   is_success (fst (api_airport_traffic stormy_world ''bom'' airports_only)) \<and>
   exactly_one
     (is_not_found (fst (api_airport_weather stormy_world ''bom'' airports_only)))
     (is_unconfigured (fst (api_airport_weather stormy_world ''bom'' airports_only)))
     (is_success (fst (api_airport_weather stormy_world ''bom'' airports_only)))"
proof -
  note unknown = airport_query_outcomes [of "''xyz''" airports_only stormy_world]
  note offline = airport_query_outcomes [of "''bom''" airports_only "offline_world 0"]
  note stormy = airport_query_outcomes [of "''bom''" airports_only stormy_world]
  have "api_airport_weather stormy_world ''xyz'' airports_only =
      (Inr (JsonError ''Unknown airport'' 404), airports_only) \<and>
    api_airport_traffic stormy_world ''xyz'' airports_only =
      (Inr (JsonError ''Unknown airport'' 404), airports_only)"
    using unknown [THEN conjunct1] by (simp add: sample_lookups)
  moreover have "api_airport_weather (offline_world 0) ''bom'' airports_only =
      (Inr (JsonError ''Weather API not configured'' 500), airports_only)"
    using offline [THEN conjunct2, THEN conjunct1] by (simp add: sample_lookups sample_worlds)
  moreover have "is_success (fst (api_airport_weather stormy_world ''bom'' airports_only))"
    using stormy [THEN conjunct2, THEN conjunct2, THEN conjunct2, THEN conjunct2,
        THEN conjunct2, THEN conjunct2, THEN conjunct1]
    by (simp add: sample_lookups sample_worlds)
  moreover have "is_success (fst (api_airport_traffic stormy_world ''bom'' airports_only))"
    using stormy [THEN conjunct2, THEN conjunct2, THEN conjunct2, THEN conjunct2,
        THEN conjunct2, THEN conjunct2, THEN conjunct2, THEN conjunct1]
    by (simp add: sample_lookups sample_worlds)
  moreover have "\<not> is_raised (fst (api_airport_weather stormy_world ''bom'' airports_only))"
    using stormy [THEN conjunct2, THEN conjunct2, THEN conjunct2, THEN conjunct2,
        THEN conjunct2, THEN conjunct2, THEN conjunct2, THEN conjunct2, THEN conjunct1]
    by (simp add: sample_lookups sample_worlds)
  then have "exactly_one
     (is_not_found (fst (api_airport_weather stormy_world ''bom'' airports_only)))
     (is_unconfigured (fst (api_airport_weather stormy_world ''bom'' airports_only)))
     (is_success (fst (api_airport_weather stormy_world ''bom'' airports_only)))"
    using stormy [THEN conjunct2, THEN conjunct2, THEN conjunct2, THEN conjunct2,
        THEN conjunct2, THEN conjunct2, THEN conjunct2, THEN conjunct2, THEN conjunct2,
        THEN conjunct2, THEN conjunct1]
    by (rule rev_mp)
  ultimately show ?thesis
    by (intro conjI) (erule conjunct1 conjunct2 | assumption)+
qed

text \<open>
  The claim as stated, "for every input exactly one of NotFound, Unconfigured,
  success", fails when the request to the provider fails: the exception of
  \<^verbatim>\<open>raise_for_status\<close> is not caught.
\<close>

theorem airport_query_exception_counterexample:
  "api_airport_weather failing_world ''bom'' airports_only =
     (Inl RequestException,
      airports_only\<lparr>requests_sent := [OpenWeatherRequest (ap_lat mumbai) (ap_lon mumbai)]\<rparr>) \<and>
   \<not> is_not_found (fst (api_airport_weather failing_world ''bom'' airports_only)) \<and>
   \<not> is_unconfigured (fst (api_airport_weather failing_world ''bom'' airports_only)) \<and>
   \<not> is_success (fst (api_airport_weather failing_world ''bom'' airports_only)) \<and>
   api_airport_traffic failing_world ''bom'' airports_only =
     (Inl RequestException, airports_only\<lparr>requests_sent := [OpenSkyRequest]\<rparr>)"
proof -
  have weather: "api_airport_weather failing_world ''bom'' airports_only =
     (Inl RequestException,
      airports_only\<lparr>requests_sent := [OpenWeatherRequest (ap_lat mumbai) (ap_lon mumbai)]\<rparr>)"
    unfolding weather_known_configured [OF sample_lookups(1) sample_worlds(5)]
    by (simp add: failing_world_def airports_only_def)
  have traffic: "api_airport_traffic failing_world ''bom'' airports_only =
     (Inl RequestException, airports_only\<lparr>requests_sent := [OpenSkyRequest]\<rparr>)"
    unfolding traffic_known [OF sample_lookups(1)]
    by (simp add: failing_world_def airports_only_def)
  show ?thesis
    unfolding weather traffic
    by (simp add: is_not_found_def is_unconfigured_def is_success_def)
qed

end
